theory Spec2Isabelle
  imports Complex_Main
begin

section \<open>Numbers, vectors and quaternions\<close>

text \<open>
  The vehicle code computes with JavaScript numbers. They are modelled as reals: the
  properties below are about which branch is taken and which value is stored, not about
  rounding. \<open>THREE.Vector3\<close> and \<open>CANNON.Vec3\<close> are both triples of numbers, and
  \<open>THREE.Quaternion\<close> and \<open>CANNON.Quaternion\<close> both quadruples; the operations are
  the libraries' own (\<open>dot\<close>, \<open>vadd\<close>, \<open>vsub\<close>, \<open>scale\<close>, \<open>normalize\<close>,
  \<open>applyQuaternion\<close>, \<open>MathUtils.clamp\<close>).
\<close>

datatype Vec3 = Vec3 (vx: real) (vy: real) (vz: real)

datatype Quaternion = Quaternion (qx: real) (qy: real) (qz: real) (qw: real)

definition dot :: "Vec3 \<Rightarrow> Vec3 \<Rightarrow> real" where
  "dot a b = vx a * vx b + vy a * vy b + vz a * vz b"

definition vadd :: "Vec3 \<Rightarrow> Vec3 \<Rightarrow> Vec3" where
  "vadd a b = Vec3 (vx a + vx b) (vy a + vy b) (vz a + vz b)"

definition vsub :: "Vec3 \<Rightarrow> Vec3 \<Rightarrow> Vec3" where
  "vsub a b = Vec3 (vx a - vx b) (vy a - vy b) (vz a - vz b)"

definition scale :: "Vec3 \<Rightarrow> real \<Rightarrow> Vec3" where
  "scale a s = Vec3 (s * vx a) (s * vy a) (s * vz a)"

definition crossVectors :: "Vec3 \<Rightarrow> Vec3 \<Rightarrow> Vec3" where
  "crossVectors a b =
     Vec3 (vy a * vz b - vz a * vy b) (vz a * vx b - vx a * vz b) (vx a * vy b - vy a * vx b)"

text \<open>\<open>CANNON.Vec3.normalize\<close>: the zero vector stays the zero vector.\<close>

definition normalize :: "Vec3 \<Rightarrow> Vec3" where
  "normalize v =
     (let n = sqrt (vx v * vx v + vy v * vy v + vz v * vz v)
      in if n > 0 then (let invN = 1 / n in Vec3 (vx v * invN) (vy v * invN) (vz v * invN))
         else Vec3 0 0 0)"

text \<open>\<open>THREE.Vector3.applyQuaternion\<close>: the product \<open>q v q*\<close>, a rotation when \<open>q\<close> is a
  unit quaternion.\<close>

definition applyQuaternion :: "Vec3 \<Rightarrow> Quaternion \<Rightarrow> Vec3" where
  "applyQuaternion v q =
     (let x = vx v; y = vy v; z = vz v;
          ix = qw q * x + qy q * z - qz q * y;
          iy = qw q * y + qz q * x - qx q * z;
          iz = qw q * z + qx q * y - qy q * x;
          iw = - qx q * x - qy q * y - qz q * z
      in Vec3 (ix * qw q + iw * - qx q + iy * - qz q - iz * - qy q)
              (iy * qw q + iw * - qy q + iz * - qx q - ix * - qz q)
              (iz * qw q + iw * - qz q + ix * - qy q - iy * - qx q))"

text \<open>\<open>THREE.MathUtils.clamp(value, min, max)\<close> is \<open>Math.max(min, Math.min(max, value))\<close>.\<close>

definition clamp :: "real \<Rightarrow> real \<Rightarrow> real \<Rightarrow> real" where
  "clamp val lo hi = max lo (min hi val)"

text \<open>\<open>Number.MAX_VALUE\<close>, the largest finite double.\<close>

definition MAX_VALUE :: real where
  "MAX_VALUE = 2 ^ 1024 - 2 ^ 971"

text \<open>
  Modelled from the spec: \<open>Utils.getSignedAngleBetweenVectors\<close> lives in
  \<open>core/FunctionLibrary\<close>, which is not among the sources. The spec calls its result
  the signed angle between the current velocity direction and the chassis forward axis;
  here the sign is taken around the world up axis. \<open>Car.physicsPreStep\<close> below takes the
  helper as a parameter, so that what is proved of it holds for any such helper; this
  definition only serves to run it on concrete vectors.
\<close>

definition getSignedAngleBetweenVectors :: "Vec3 \<Rightarrow> Vec3 \<Rightarrow> real" where
  "getSignedAngleBetweenVectors v1 v2 =
     (let angle = arccos (dot v1 v2)
      in if dot (Vec3 0 1 0) (crossVectors v1 v2) < 0 then - angle else angle)"

section \<open>Data model\<close>

text \<open>\<open>KeyBinding\<close>: the codes bound to an action, its pressed state and its two edge
  flags.\<close>

record KeyBinding =
  eventCodes :: "string list"
  isPressed :: bool
  justPressed :: bool
  justReleased :: bool

definition new_KeyBinding :: "string \<Rightarrow> KeyBinding" where
  "new_KeyBinding code =
     \<lparr>eventCodes = [code], isPressed = False, justPressed = False, justReleased = False\<rparr>"

text \<open>A position and an orientation: a \<open>THREE.Object3D\<close> as far as the vehicle code
  uses it, and a wheel's world transform (\<open>CANNON.Transform\<close>).\<close>

record transform =
  position :: Vec3
  quaternion :: Quaternion

text \<open>The fields of a \<open>CANNON.Body\<close> that the vehicle code reads or writes; its
  \<open>position\<close> and \<open>quaternion\<close> carry the suffix \<open>_Body\<close>.\<close>

record Body =
  position_Body :: Vec3
  quaternion_Body :: Quaternion
  previousPosition :: Vec3
  interpolatedPosition :: Vec3
  initPosition :: Vec3
  velocity :: Vec3
  angularVelocity :: Vec3

record WheelInfo =
  steering :: real
  engineForce :: real
  brake :: real
  worldTransform :: transform

record RaycastVehicle =
  wheelInfos :: "WheelInfo list"
  numWheelsOnGround :: nat

record Wheel =
  wheelObject :: transform

text \<open>What the vehicle code touches of the world it has been added to: the input
  manager's receiver, the camera operator's radius, and the requests to restart the
  scenario.\<close>

datatype InputReceiver = VehicleReceiver | CameraOperatorReceiver

record World =
  inputReceiver :: InputReceiver
  cameraRadius :: real
  restartScenarioCalls :: nat

record KeyboardEvent =
  shiftKey :: bool

text \<open>
  \<open>Vehicle extends THREE.Object3D\<close>: the inherited \<open>position\<close> and \<open>quaternion\<close> of the
  object are the scene-graph transform of the vehicle.
  The action table is an object keyed by action names; it is kept as an association
  list in insertion order, the order in which \<open>for (const action in this.actions)\<close>
  visits it.
\<close>

record Vehicle = transform +
  actions :: "(string \<times> KeyBinding) list"
  rayCastVehicle :: RaycastVehicle
  wheels :: "Wheel list"
  world :: "World option"
  collision :: Body
  firstPerson :: bool

record SpringSimulator =
  springPosition :: real
  target :: real

record SteeringWheel =
  rotation_z :: real

text \<open>\<open>Car extends Vehicle\<close>. The \<open>position\<close> that \<open>Car\<close> declares for
  \<open>IControllable\<close> is the one \<open>position\<close> property of the object, the inherited field
  above; \<open>speed\<close> is the private \<open>_speed\<close> behind the getter.\<close>

record Car = Vehicle +
  speed :: real
  steeringWheel :: "SteeringWheel option"
  airSpinTimer :: real
  steeringSimulator :: SpringSimulator
  gear :: int
  shiftTimer :: real
  timeToShift :: real
  canTiltForwards :: bool

section \<open>Exceptions\<close>

text \<open>
  Reading a property of \<open>undefined\<close> raises a \<open>TypeError\<close>. A method that raises has
  already made the assignments before the faulting access, so a thrown outcome carries
  the state reached.
\<close>

datatype error = TypeError

datatype 'a outcome = Returns 'a | Throws error 'a

fun state_of :: "'a outcome \<Rightarrow> 'a" where
  "state_of (Returns s) = s"
| "state_of (Throws e s) = s"

fun returns :: "'a outcome \<Rightarrow> bool" where
  "returns (Returns s) = True"
| "returns (Throws e s) = False"

fun andThen :: "'a outcome \<Rightarrow> ('a \<Rightarrow> 'a outcome) \<Rightarrow> 'a outcome" where
  "andThen (Returns s) f = f s"
| "andThen (Throws e s) f = Throws e s"

text \<open>A loop over a fixed list of indices or keys, left at the first exception.\<close>

fun forEach :: "('i \<Rightarrow> 'a \<Rightarrow> 'a outcome) \<Rightarrow> 'i list \<Rightarrow> 'a \<Rightarrow> 'a outcome" where
  "forEach f [] s = Returns s"
| "forEach f (i # rest) s = andThen (f i s) (forEach f rest)"

text \<open>JavaScript's short-circuit \<open>&&\<close> and \<open>||\<close> over operands whose evaluation may
  raise (\<open>None\<close>): the right operand is evaluated only when the left one does not decide.\<close>

fun and_also :: "bool option \<Rightarrow> bool option \<Rightarrow> bool option" where
  "and_also None b = None"
| "and_also (Some False) b = Some False"
| "and_also (Some True) b = b"

fun or_else :: "bool option \<Rightarrow> bool option \<Rightarrow> bool option" where
  "or_else None b = None"
| "or_else (Some True) b = Some True"
| "or_else (Some False) b = b"

section \<open>Vehicle\<close>

text \<open>\<open>this.actions[name]\<close>, for a name of the table or a name that no object has. The
  members that every object inherits (\<open>toString\<close>, \<open>constructor\<close> and the like) are no
  bindings and are not part of the model: the names looked up below are action names
  of the table, \<open>brake\<close> and \<open>view\<close>, and key codes.\<close>

definition action :: "string \<Rightarrow> ('a) Vehicle_scheme \<Rightarrow> KeyBinding option" where
  "action name v = map_of (actions v) name"

definition isPressedOf :: "string \<Rightarrow> ('a) Vehicle_scheme \<Rightarrow> bool option" where
  "isPressedOf name v = map_option isPressed (action name v)"

definition justPressedOf :: "string \<Rightarrow> ('a) Vehicle_scheme \<Rightarrow> bool option" where
  "justPressedOf name v = map_option justPressed (action name v)"

definition justReleasedOf :: "string \<Rightarrow> ('a) Vehicle_scheme \<Rightarrow> bool option" where
  "justReleasedOf name v = map_option justReleased (action name v)"

text \<open>Assignment to the fields of the binding object stored under a name.\<close>

definition modifyAction ::
  "string \<Rightarrow> (KeyBinding \<Rightarrow> KeyBinding) \<Rightarrow> ('a) Vehicle_scheme \<Rightarrow> ('a) Vehicle_scheme" where
  "modifyAction name f v =
     v\<lparr>actions := map (\<lambda>(n, b). if n = name then (n, f b) else (n, b)) (actions v)\<rparr>"

text \<open>\<open>RaycastVehicle.setSteeringValue\<close>, \<open>applyEngineForce\<close> and \<open>setBrake\<close> store the
  value in the wheel's info; the vehicle's methods do so for every wheel.\<close>

definition Vehicle_setSteeringValue :: "real \<Rightarrow> ('a) Vehicle_scheme \<Rightarrow> ('a) Vehicle_scheme" where
  "Vehicle_setSteeringValue val v =
     v\<lparr>rayCastVehicle := (rayCastVehicle v)
        \<lparr>wheelInfos := map (\<lambda>w. w\<lparr>steering := val\<rparr>) (wheelInfos (rayCastVehicle v))\<rparr>\<rparr>"

definition Vehicle_applyEngineForce :: "real \<Rightarrow> ('a) Vehicle_scheme \<Rightarrow> ('a) Vehicle_scheme" where
  "Vehicle_applyEngineForce force v =
     v\<lparr>rayCastVehicle := (rayCastVehicle v)
        \<lparr>wheelInfos := map (\<lambda>w. w\<lparr>engineForce := force\<rparr>) (wheelInfos (rayCastVehicle v))\<rparr>\<rparr>"

definition Vehicle_setBrake :: "real \<Rightarrow> ('a) Vehicle_scheme \<Rightarrow> ('a) Vehicle_scheme" where
  "Vehicle_setBrake brakeForce v =
     v\<lparr>rayCastVehicle := (rayCastVehicle v)
        \<lparr>wheelInfos := map (\<lambda>w. w\<lparr>brake := brakeForce\<rparr>) (wheelInfos (rayCastVehicle v))\<rparr>\<rparr>"

definition Vehicle_setPosition ::
  "real \<Rightarrow> real \<Rightarrow> real \<Rightarrow> ('a) Vehicle_scheme \<Rightarrow> ('a) Vehicle_scheme" where
  "Vehicle_setPosition x y z v =
     v\<lparr>collision := (collision v)
        \<lparr>position_Body := Vec3 x y z,
         previousPosition := Vec3 x y z,
         interpolatedPosition := Vec3 x y z,
         initPosition := Vec3 x y z\<rparr>\<rparr>"

text \<open>
  One round of the wheel loop of \<open>Vehicle.update\<close>. \<open>updateWheelTransform(i)\<close> is the
  physics library's recomputation of the wheel's world transform from the chassis body;
  what it computes is the parameter \<open>wheelTransformWorld\<close>. \<open>this.wheels[i]\<close> is
  \<open>undefined\<close> past the end of \<open>wheels\<close>.
\<close>

definition syncWheel ::
  "(Body \<Rightarrow> WheelInfo \<Rightarrow> transform) \<Rightarrow> nat \<Rightarrow> ('a) Vehicle_scheme \<Rightarrow> ('a) Vehicle_scheme outcome" where
  "syncWheel wheelTransformWorld i v =
     (let infos = wheelInfos (rayCastVehicle v);
          info = (infos ! i)\<lparr>worldTransform := wheelTransformWorld (collision v) (infos ! i)\<rparr>;
          v1 = v\<lparr>rayCastVehicle := (rayCastVehicle v)\<lparr>wheelInfos := infos[i := info]\<rparr>\<rparr>;
          p = position (worldTransform info);
          q = quaternion (worldTransform info)
      in if i < length (wheels v1)
         then Returns (v1\<lparr>wheels := (wheels v1)
                [i := (wheels v1 ! i)\<lparr>wheelObject := \<lparr>position = p, quaternion = q\<rparr>\<rparr>]\<rparr>)
         else Throws TypeError v1)"

text \<open>
  \<open>Vehicle.update\<close> reaches the transform through \<open>super\<close>: \<open>super.position\<close> and
  \<open>super.quaternion\<close> are looked up on the prototype of the base class, not on the
  object. \<open>THREE.Object3D\<close> creates \<open>position\<close> and \<open>quaternion\<close> on each instance in its
  constructor and its prototype has neither, so both lookups give \<open>undefined\<close>, and the
  call of \<open>set\<close> on the result raises a \<open>TypeError\<close> before anything is assigned.
\<close>

definition super_position :: "('a) Vehicle_scheme \<Rightarrow> Vec3 option" where
  "super_position v = None"

definition super_quaternion :: "('a) Vehicle_scheme \<Rightarrow> Quaternion option" where
  "super_quaternion v = None"

definition Vehicle_update ::
  "(Body \<Rightarrow> WheelInfo \<Rightarrow> transform) \<Rightarrow> real \<Rightarrow> ('a) Vehicle_scheme \<Rightarrow> ('a) Vehicle_scheme outcome" where
  "Vehicle_update wheelTransformWorld timeStep v =
     (case super_position v of
        None \<Rightarrow> Throws TypeError v
      | Some p \<Rightarrow>
          (let v1 = v\<lparr>position := Vec3 (vx (position_Body (collision v)))
                                     (vy (position_Body (collision v)))
                                     (vz (position_Body (collision v)))\<rparr>
           in case super_quaternion v1 of
                None \<Rightarrow> Throws TypeError v1
              | Some q \<Rightarrow>
                  (let v2 = v1\<lparr>quaternion := Quaternion (qx (quaternion_Body (collision v1)))
                                  (qy (quaternion_Body (collision v1)))
                                  (qz (quaternion_Body (collision v1)))
                                  (qw (quaternion_Body (collision v1)))\<rparr>
                   in forEach (syncWheel wheelTransformWorld)
                        [0 ..< length (wheelInfos (rayCastVehicle v2))] v2)))"

text \<open>\<open>Vehicle.onInputChange\<close> does nothing; \<open>Car\<close> overrides it. The methods that call
  \<open>this.onInputChange()\<close> take the override as a parameter.\<close>

definition Vehicle_onInputChange :: "('a) Vehicle_scheme \<Rightarrow> ('a) Vehicle_scheme outcome" where
  "Vehicle_onInputChange v = Returns v"

definition Vehicle_triggerAction ::
  "(('a) Vehicle_scheme \<Rightarrow> ('a) Vehicle_scheme outcome) \<Rightarrow> string \<Rightarrow> bool \<Rightarrow>
   ('a) Vehicle_scheme \<Rightarrow> ('a) Vehicle_scheme outcome" where
  "Vehicle_triggerAction onInputChange actionName val v =
     (case action actionName v of
        None \<Rightarrow> Throws TypeError v
      | Some a \<Rightarrow>
          if isPressed a \<noteq> val then
            (let v1 = modifyAction actionName
                        (\<lambda>b. b\<lparr>isPressed := val, justPressed := False, justReleased := False\<rparr>) v;
                 v2 = (if val then modifyAction actionName (\<lambda>b. b\<lparr>justPressed := True\<rparr>) v1
                       else modifyAction actionName (\<lambda>b. b\<lparr>justReleased := True\<rparr>) v1)
             in andThen (onInputChange v2)
                  (\<lambda>v3. Returns (modifyAction actionName
                                    (\<lambda>b. b\<lparr>justPressed := False, justReleased := False\<rparr>) v3)))
          else Returns v)"

definition Vehicle_resetControls ::
  "(('a) Vehicle_scheme \<Rightarrow> ('a) Vehicle_scheme outcome) \<Rightarrow>
   ('a) Vehicle_scheme \<Rightarrow> ('a) Vehicle_scheme outcome" where
  "Vehicle_resetControls onInputChange v =
     forEach (\<lambda>a. Vehicle_triggerAction onInputChange a False) (map fst (actions v)) v"

definition Vehicle_setFirstPersonView ::
  "bool \<Rightarrow> ('a) Vehicle_scheme \<Rightarrow> ('a) Vehicle_scheme outcome" where
  "Vehicle_setFirstPersonView val v =
     (let v1 = v\<lparr>firstPerson := val\<rparr>
      in case world v1 of
           None \<Rightarrow> Throws TypeError v1
         | Some w \<Rightarrow> Returns (v1\<lparr>world := Some (w\<lparr>cameraRadius := (if val then 0 else 3)\<rparr>)\<rparr>))"

definition Vehicle_toggleFirstPersonView ::
  "('a) Vehicle_scheme \<Rightarrow> ('a) Vehicle_scheme outcome" where
  "Vehicle_toggleFirstPersonView v = Vehicle_setFirstPersonView (\<not> firstPerson v) v"

definition Vehicle_handleKeyboardEvent ::
  "(('a) Vehicle_scheme \<Rightarrow> ('a) Vehicle_scheme outcome) \<Rightarrow> KeyboardEvent \<Rightarrow> string \<Rightarrow> bool \<Rightarrow>
   ('a) Vehicle_scheme \<Rightarrow> ('a) Vehicle_scheme outcome" where
  "Vehicle_handleKeyboardEvent onInputChange event code pressed v =
     (if code = ''KeyC'' \<and> pressed = True \<and> shiftKey event = True then
        andThen (Vehicle_resetControls onInputChange v)
          (\<lambda>v1. case world v1 of
                   None \<Rightarrow> Throws TypeError v1
                 | Some w \<Rightarrow> Returns (v1\<lparr>world := Some (w\<lparr>inputReceiver := CameraOperatorReceiver\<rparr>)\<rparr>))
      else if code = ''KeyR'' \<and> pressed = True \<and> shiftKey event = True then
        (case world v of
           None \<Rightarrow> Throws TypeError v
         | Some w \<Rightarrow>
             Returns (v\<lparr>world := Some (w\<lparr>restartScenarioCalls := Suc (restartScenarioCalls w)\<rparr>)\<rparr>))
      else
        forEach
          (\<lambda>a v1. case action a v1 of
                     None \<Rightarrow> Throws TypeError v1
                   | Some binding \<Rightarrow>
                       if code \<in> set (eventCodes binding)
                       then Vehicle_triggerAction onInputChange a pressed v1
                       else Returns v1)
          (map fst (actions v)) v)"

section \<open>Car\<close>

definition maxAirSpinMagnitude :: real where
  "maxAirSpinMagnitude = 2.0"

definition airSpinAcceleration :: real where
  "airSpinAcceleration = 0.15"

definition maxSteerVal :: real where
  "maxSteerVal = 0.8"

definition brakeForce :: real where
  "brakeForce = 1000000"

text \<open>The action table of the class, in the order of its initialiser.\<close>

definition Car_actions :: "(string \<times> KeyBinding) list" where
  "Car_actions =
     [(''throttle'', new_KeyBinding ''KeyW''),
      (''reverse'', new_KeyBinding ''KeyS''),
      (''left'', new_KeyBinding ''KeyA''),
      (''right'', new_KeyBinding ''KeyD''),
      (''handbrake'', new_KeyBinding ''Space''),
      (''horn'', new_KeyBinding ''KeyH'')]"

text \<open>\<open>Car.setBrake\<close> overrides \<open>Vehicle.setBrake\<close> with the same loop.\<close>

definition Car_setBrake :: "real \<Rightarrow> Car \<Rightarrow> Car" where
  "Car_setBrake force c =
     c\<lparr>rayCastVehicle := (rayCastVehicle c)
        \<lparr>wheelInfos := map (\<lambda>w. w\<lparr>brake := force\<rparr>) (wheelInfos (rayCastVehicle c))\<rparr>\<rparr>"

subsection \<open>\<open>Car.update\<close>\<close>

definition update_airSpin :: "bool \<Rightarrow> real \<Rightarrow> Car \<Rightarrow> Car outcome" where
  "update_airSpin tiresHaveContact timeStep c =
     (if \<not> tiresHaveContact then
        (let c1 = c\<lparr>airSpinTimer := airSpinTimer c + timeStep\<rparr>
         in case isPressedOf ''throttle'' c1 of
              None \<Rightarrow> Throws TypeError c1
            | Some p \<Rightarrow> Returns (if \<not> p then c1\<lparr>canTiltForwards := True\<rparr> else c1))
      else Returns (c\<lparr>canTiltForwards := False, airSpinTimer := 0\<rparr>))"

definition update_steering :: "Car \<Rightarrow> Car outcome" where
  "update_steering c =
     (case isPressedOf ''left'' c of
        None \<Rightarrow> Throws TypeError c
      | Some l \<Rightarrow>
          if l then Returns (Vehicle_setSteeringValue 0.7 c)
          else (case isPressedOf ''right'' c of
                  None \<Rightarrow> Throws TypeError c
                | Some r \<Rightarrow>
                    if r then Returns (Vehicle_setSteeringValue (- 0.7) c)
                    else Returns (Vehicle_setSteeringValue 0 c)))"

definition update_engine :: "bool \<Rightarrow> Car \<Rightarrow> Car outcome" where
  "update_engine tiresHaveContact c =
     (case isPressedOf ''throttle'' c of
        None \<Rightarrow> Throws TypeError c
      | Some t \<Rightarrow>
          if t then Returns (if tiresHaveContact then Vehicle_applyEngineForce 1500 c else c)
          else (case isPressedOf ''reverse'' c of
                  None \<Rightarrow> Throws TypeError c
                | Some r \<Rightarrow>
                    if r then Returns (if tiresHaveContact
                                       then Vehicle_applyEngineForce (- 1500) c else c)
                    else Returns (Vehicle_applyEngineForce 0 c)))"

definition update_braking :: "Car \<Rightarrow> Car outcome" where
  "update_braking c =
     (case isPressedOf ''handbrake'' c of
        None \<Rightarrow> Throws TypeError c
      | Some h \<Rightarrow> Returns (if h then Car_setBrake 10 c else Car_setBrake 0 c))"

definition update_steeringWheel :: "Car \<Rightarrow> Car" where
  "update_steeringWheel c =
     (case steeringWheel c of
        None \<Rightarrow> c
      | Some sw \<Rightarrow>
          c\<lparr>steeringWheel :=
              Some (sw\<lparr>rotation_z := - springPosition (steeringSimulator c) * 2\<rparr>)\<rparr>)"

definition Car_update :: "(Body \<Rightarrow> WheelInfo \<Rightarrow> transform) \<Rightarrow> real \<Rightarrow> Car \<Rightarrow> Car outcome" where
  "Car_update wheelTransformWorld timeStep c =
     andThen (Vehicle_update wheelTransformWorld timeStep c)
       (\<lambda>c1. let c2 = c1\<lparr>position := position_Body (collision c1)\<rparr>;
                  tiresHaveContact = (numWheelsOnGround (rayCastVehicle c2) > 0)
              in andThen (update_airSpin tiresHaveContact timeStep c2)
                   (\<lambda>c3. andThen (update_steering c3)
                     (\<lambda>c4. andThen (update_engine tiresHaveContact c4)
                       (\<lambda>c5. andThen (update_braking c5)
                         (\<lambda>c6. Returns (update_steeringWheel c6))))))"

subsection \<open>\<open>Car.physicsPreStep\<close>\<close>

text \<open>The local constants of the method, as functions of what they are computed from.\<close>

definition airSpinInfluence :: "real \<Rightarrow> real \<Rightarrow> real" where
  "airSpinInfluence timer spd = clamp (timer / 2) 0 1 * clamp spd 0 1"

definition flipOverInfluence :: "Vec3 \<Rightarrow> real \<Rightarrow> real" where
  "flipOverInfluence up spd =
     (let flipSpeedFactor = clamp (1 - spd) 0 1;
          upFactor = dot up (Vec3 0 (- 1) 0) / 2 + 0.5
      in flipSpeedFactor * upFactor * 3)"

text \<open>The block under \<open>// Right\<close> and \<open>// Left\<close>: \<open>angVel\<close> is
  \<open>this.collision.angularVelocity\<close>, changed in place.\<close>

definition spin_left_right :: "Vec3 \<Rightarrow> Vec3 \<Rightarrow> Car \<Rightarrow> Car outcome" where
  "spin_left_right spinVectorForward effectiveSpinVectorForward c =
     (let angVel = angularVelocity (collision c)
      in case and_also (isPressedOf ''right'' c) (map_option Not (isPressedOf ''left'' c)) of
           None \<Rightarrow> Throws TypeError c
         | Some True \<Rightarrow>
             Returns (if dot angVel spinVectorForward < maxAirSpinMagnitude
                      then c\<lparr>collision := (collision c)
                               \<lparr>angularVelocity := vadd angVel effectiveSpinVectorForward\<rparr>\<rparr>
                      else c)
         | Some False \<Rightarrow>
             (case and_also (isPressedOf ''left'' c) (map_option Not (isPressedOf ''right'' c)) of
                None \<Rightarrow> Throws TypeError c
              | Some True \<Rightarrow>
                  Returns (if dot angVel spinVectorForward > - maxAirSpinMagnitude
                           then c\<lparr>collision := (collision c)
                                    \<lparr>angularVelocity := vsub angVel effectiveSpinVectorForward\<rparr>\<rparr>
                           else c)
              | Some False \<Rightarrow> Returns c))"

text \<open>The block under \<open>// Forwards\<close> and \<open>// Backwards\<close>.\<close>

definition spin_forwards_backwards :: "Vec3 \<Rightarrow> Vec3 \<Rightarrow> Car \<Rightarrow> Car outcome" where
  "spin_forwards_backwards spinVectorRight effectiveSpinVectorRight c =
     (let angVel = angularVelocity (collision c)
      in case and_also (Some (canTiltForwards c))
                (and_also (isPressedOf ''throttle'' c) (map_option Not (isPressedOf ''reverse'' c))) of
           None \<Rightarrow> Throws TypeError c
         | Some True \<Rightarrow>
             Returns (if dot angVel spinVectorRight < maxAirSpinMagnitude
                      then c\<lparr>collision := (collision c)
                               \<lparr>angularVelocity := vadd angVel effectiveSpinVectorRight\<rparr>\<rparr>
                      else c)
         | Some False \<Rightarrow>
             (case and_also (isPressedOf ''reverse'' c) (map_option Not (isPressedOf ''throttle'' c)) of
                None \<Rightarrow> Throws TypeError c
              | Some True \<Rightarrow>
                  Returns (if dot angVel spinVectorRight > - maxAirSpinMagnitude
                           then c\<lparr>collision := (collision c)
                                    \<lparr>angularVelocity := vsub angVel effectiveSpinVectorRight\<rparr>\<rparr>
                           else c)
              | Some False \<Rightarrow> Returns c))"

text \<open>The block under \<open>// Steering\<close>. The helper that measures the drift angle is the
  parameter \<open>signedAngle\<close>.\<close>

definition steering_target :: "(Vec3 \<Rightarrow> Vec3 \<Rightarrow> real) \<Rightarrow> Vec3 \<Rightarrow> Car \<Rightarrow> Car outcome" where
  "steering_target signedAngle forward c =
     (let velocity_THREE = normalize (velocity (collision c));
          driftCorrection = signedAngle velocity_THREE forward;
          speedFactor = clamp (speed c * 0.3) 1 MAX_VALUE
      in case isPressedOf ''right'' c of
           None \<Rightarrow> Throws TypeError c
         | Some r \<Rightarrow>
             if r then
               (let steering = min (- maxSteerVal / speedFactor) (- driftCorrection)
                in Returns (c\<lparr>steeringSimulator := (steeringSimulator c)
                              \<lparr>target := clamp steering (- maxSteerVal) maxSteerVal\<rparr>\<rparr>))
             else
               (case isPressedOf ''left'' c of
                  None \<Rightarrow> Throws TypeError c
                | Some l \<Rightarrow>
                    if l then
                      (let steering = max (maxSteerVal / speedFactor) (- driftCorrection)
                       in Returns (c\<lparr>steeringSimulator := (steeringSimulator c)
                                     \<lparr>target := clamp steering (- maxSteerVal) maxSteerVal\<rparr>\<rparr>))
                    else Returns (c\<lparr>steeringSimulator := (steeringSimulator c)\<lparr>target := 0\<rparr>\<rparr>)))"

definition Car_physicsPreStep :: "(Vec3 \<Rightarrow> Vec3 \<Rightarrow> real) \<Rightarrow> Body \<Rightarrow> Car \<Rightarrow> Car outcome" where
  "Car_physicsPreStep signedAngle body c =
     (let quat = quaternion_Body body;
          forward = applyQuaternion (Vec3 0 0 1) quat;
          right = applyQuaternion (Vec3 1 0 0) quat;
          up = applyQuaternion (Vec3 0 1 0) quat;
          c1 = c\<lparr>speed := dot (velocity (collision c)) forward\<rparr>;
          effectiveSpinVectorForward =
            scale forward (airSpinAcceleration *
              (airSpinInfluence (airSpinTimer c1) (speed c1) + flipOverInfluence up (speed c1)));
          effectiveSpinVectorRight =
            scale right (airSpinAcceleration * airSpinInfluence (airSpinTimer c1) (speed c1))
      in andThen (spin_left_right forward effectiveSpinVectorForward c1)
           (\<lambda>c2. andThen (spin_forwards_backwards right effectiveSpinVectorRight c2)
             (steering_target signedAngle forward)))"

subsection \<open>Input\<close>

definition Car_onInputChange :: "Car \<Rightarrow> Car outcome" where
  "Car_onInputChange c =
     andThen (Vehicle_onInputChange c)
       (\<lambda>c0. case or_else (justReleasedOf ''throttle'' c0) (justReleasedOf ''reverse'' c0) of
                None \<Rightarrow> Throws TypeError c0
              | Some released \<Rightarrow>
                  (let c1 = (if released then Vehicle_applyEngineForce 0 c0 else c0)
                   in case justPressedOf ''brake'' c1 of
                        None \<Rightarrow> Throws TypeError c1
                      | Some bp \<Rightarrow>
                          (let c2 = (if bp then Car_setBrake brakeForce c1 else c1)
                           in case justReleasedOf ''brake'' c2 of
                                None \<Rightarrow> Throws TypeError c2
                              | Some br \<Rightarrow>
                                  (let c3 = (if br then Car_setBrake 0 c2 else c2)
                                   in case justPressedOf ''view'' c3 of
                                        None \<Rightarrow> Throws TypeError c3
                                      | Some vp \<Rightarrow>
                                          if vp then Vehicle_toggleFirstPersonView c3
                                          else Returns c3))))"

definition Car_handleKeyboardEvent :: "KeyboardEvent \<Rightarrow> string \<Rightarrow> bool \<Rightarrow> Car \<Rightarrow> Car outcome" where
  "Car_handleKeyboardEvent event code pressed c =
     (if action code c \<noteq> None
      then Returns (modifyAction code (\<lambda>b. b\<lparr>isPressed := pressed\<rparr>) c)
      else Returns c)"

text \<open>The inherited methods as a \<open>Car\<close> runs them: \<open>this.onInputChange()\<close> is the
  override.\<close>

definition Car_triggerAction :: "string \<Rightarrow> bool \<Rightarrow> Car \<Rightarrow> Car outcome" where
  "Car_triggerAction = Vehicle_triggerAction Car_onInputChange"

definition Car_resetControls :: "Car \<Rightarrow> Car outcome" where
  "Car_resetControls = Vehicle_resetControls Car_onInputChange"

subsection \<open>Construction\<close>

text \<open>
  The state the constructors leave, for a model whose scene holds the wheel objects
  \<open>ws\<close> and perhaps a steering wheel: a body at rest at the origin, one wheel info per
  wheel found by \<open>readVehicleData\<close>, the wheels once more from \<open>readCarData\<close>, the
  class's action table, and the field initialisers of \<open>Car\<close>.
\<close>

definition new_Body :: Body where
  "new_Body =
     \<lparr>position_Body = Vec3 0 0 0, quaternion_Body = Quaternion 0 0 0 1,
      previousPosition = Vec3 0 0 0, interpolatedPosition = Vec3 0 0 0,
      initPosition = Vec3 0 0 0, velocity = Vec3 0 0 0, angularVelocity = Vec3 0 0 0\<rparr>"

definition new_WheelInfo :: WheelInfo where
  "new_WheelInfo =
     \<lparr>steering = 0, engineForce = 0, brake = 0,
      worldTransform = \<lparr>position = Vec3 0 0 0, quaternion = Quaternion 0 0 0 1\<rparr>\<rparr>"

definition new_Car :: "transform list \<Rightarrow> SteeringWheel option \<Rightarrow> Car" where
  "new_Car ws sw =
     \<lparr>position = Vec3 0 0 0, quaternion = Quaternion 0 0 0 1,
      actions = Car_actions,
      rayCastVehicle = \<lparr>wheelInfos = map (\<lambda>w. new_WheelInfo) ws, numWheelsOnGround = 0\<rparr>,
      wheels = map (\<lambda>w. \<lparr>wheelObject = w\<rparr>) ws @ map (\<lambda>w. \<lparr>wheelObject = w\<rparr>) ws,
      world = None,
      collision = new_Body,
      firstPerson = False,
      speed = 0,
      steeringWheel = sw,
      airSpinTimer = 0,
      steeringSimulator = \<lparr>springPosition = 0, target = 0\<rparr>,
      gear = 1,
      shiftTimer = 0,
      timeToShift = 0.2,
      canTiltForwards = False\<rparr>"

subsection \<open>Well-formed cars, calls and runs\<close>

text \<open>
  No method adds or removes an action or changes the codes bound to one: a car's table
  has the names and codes of the class's table, and only the three flags of each
  binding vary.
\<close>

definition Car_table :: "Car \<Rightarrow> bool" where
  "Car_table c \<longleftrightarrow>
     map (\<lambda>(n, b). (n, eventCodes b)) (actions c) =
     map (\<lambda>(n, b). (n, eventCodes b)) Car_actions"

definition boundCodes :: "Car \<Rightarrow> string list" where
  "boundCodes c = concat (map (\<lambda>(n, b). eventCodes b) (actions c))"

text \<open>
  The calls a car receives during a run: the two per-tick hooks, the input methods
  (\<open>triggerAction\<close> with the name of one of the six actions) and \<open>setPosition\<close>;
  \<open>Integrate\<close> stands for the physics library writing the chassis body and the wheel
  state between two hooks. An exception ends the call that raised it, not
  the run: the next call finds the state the failed one left.
\<close>

datatype ActionName = Throttle | Reverse | Left | Right | Handbrake | Horn

fun name_of :: "ActionName \<Rightarrow> string" where
  "name_of Throttle = ''throttle''"
| "name_of Reverse = ''reverse''"
| "name_of Left = ''left''"
| "name_of Right = ''right''"
| "name_of Handbrake = ''handbrake''"
| "name_of Horn = ''horn''"

datatype Car_call =
    Update real
  | PhysicsPreStep Body
  | HandleKeyboardEvent KeyboardEvent string bool
  | TriggerAction ActionName bool
  | ResetControls
  | SetPosition real real real
  | Integrate Body RaycastVehicle

fun exec ::
  "(Vec3 \<Rightarrow> Vec3 \<Rightarrow> real) \<Rightarrow> (Body \<Rightarrow> WheelInfo \<Rightarrow> transform) \<Rightarrow> Car_call \<Rightarrow> Car \<Rightarrow> Car outcome" where
  "exec sa wt (Update timeStep) c = Car_update wt timeStep c"
| "exec sa wt (PhysicsPreStep body) c = Car_physicsPreStep sa body c"
| "exec sa wt (HandleKeyboardEvent event code pressed) c = Car_handleKeyboardEvent event code pressed c"
| "exec sa wt (TriggerAction a val) c = Car_triggerAction (name_of a) val c"
| "exec sa wt ResetControls c = Car_resetControls c"
| "exec sa wt (SetPosition x y z) c = Returns (Vehicle_setPosition x y z c)"
| "exec sa wt (Integrate body rcv) c = Returns (c\<lparr>collision := body, rayCastVehicle := rcv\<rparr>)"

fun run ::
  "(Vec3 \<Rightarrow> Vec3 \<Rightarrow> real) \<Rightarrow> (Body \<Rightarrow> WheelInfo \<Rightarrow> transform) \<Rightarrow> Car_call list \<Rightarrow> Car \<Rightarrow> Car" where
  "run sa wt [] c = c"
| "run sa wt (call # calls) c = run sa wt calls (state_of (exec sa wt call c))"

text \<open>A car on which the key of an action is held: the binding's \<open>isPressed\<close> is set.\<close>

definition pressing :: "string \<Rightarrow> Car \<Rightarrow> Car" where
  "pressing name c = modifyAction name (\<lambda>b. b\<lparr>isPressed := True\<rparr>) c"

text \<open>A stand-in for the physics library's wheel transform when a run is evaluated on
  concrete data: the wheel keeps the world transform it has.\<close>

definition keptWheelTransform :: "Body \<Rightarrow> WheelInfo \<Rightarrow> transform" where
  "keptWheelTransform body info = worldTransform info"

subsection \<open>Notions used in the statements\<close>

text \<open>An action is held when its binding is there and pressed.\<close>

definition held :: "string \<Rightarrow> Car \<Rightarrow> bool" where
  "held name c \<longleftrightarrow> isPressedOf name c = Some True"

text \<open>The physics library reporting the number of wheels in contact with the ground.\<close>

definition grounded :: "nat \<Rightarrow> Car \<Rightarrow> Car" where
  "grounded n c = c\<lparr>rayCastVehicle := (rayCastVehicle c)\<lparr>numWheelsOnGround := n\<rparr>\<rparr>"

text \<open>A car with four wheels and no steering wheel object, as constructed.\<close>

definition four_wheel_car :: Car where
  "four_wheel_car =
     (let w = \<lparr>position = Vec3 0 0 0, quaternion = Quaternion 0 0 0 1\<rparr>
      in new_Car [w, w, w, w] None)"

text \<open>The drivetrain state of a car, and the engine force that each wheel carries.\<close>

definition drivetrain :: "Car \<Rightarrow> int \<times> real \<times> real" where
  "drivetrain c = (gear c, shiftTimer c, timeToShift c)"

definition engineForces :: "Car \<Rightarrow> real list" where
  "engineForces c = map engineForce (wheelInfos (rayCastVehicle c))"

text \<open>The angular velocity after one of the two gated blocks of \<open>Car.physicsPreStep\<close>:
  the increment is added when the first condition holds and the projection on the axis
  is below the cap, subtracted when the second holds and the projection is above minus
  the cap.\<close>

definition gated_spin :: "bool \<Rightarrow> bool \<Rightarrow> Vec3 \<Rightarrow> Vec3 \<Rightarrow> Vec3 \<Rightarrow> Vec3" where
  "gated_spin adds subtracts axis increment angVel =
     (if adds
      then (if dot angVel axis < maxAirSpinMagnitude then vadd angVel increment else angVel)
      else if subtracts
      then (if dot angVel axis > - maxAirSpinMagnitude then vsub angVel increment else angVel)
      else angVel)"

text \<open>What no method of the car writes: the drivetrain state, the air-time accumulator
  and the flag that allows tilting forwards (the only assignments to the last two are in
  \<open>Car.update\<close>, behind the call of \<open>super.update\<close>).\<close>

definition untouched :: "Car \<Rightarrow> (int \<times> real \<times> real) \<times> real \<times> bool" where
  "untouched c = (drivetrain c, airSpinTimer c, canTiltForwards c)"

text \<open>Three chassis bodies for concrete runs: upside down and spinning about the forward
  axis at 1.9 rad/s; at rest and rolled about the forward axis by about 74 degrees;
  upright and moving straight ahead at speed 1.\<close>

definition inverted_spinning_body :: Body where
  "inverted_spinning_body =
     new_Body\<lparr>quaternion_Body := Quaternion 0 0 1 0, angularVelocity := Vec3 0 0 (19 / 10)\<rparr>"

definition tilted_body :: Body where
  "tilted_body = new_Body\<lparr>quaternion_Body := Quaternion 0 0 (3 / 5) (4 / 5)\<rparr>"

definition rolling_body :: Body where
  "rolling_body = new_Body\<lparr>velocity := Vec3 0 0 1\<rparr>"

text \<open>What the spin blocks of \<open>Car.physicsPreStep\<close> leave as it is.\<close>

definition pre_frame where
  "pre_frame c = (actions c, rayCastVehicle c, wheels c, velocity (collision c), airSpinTimer c,
     canTiltForwards c, (gear c, shiftTimer c, timeToShift c), speed c, steeringSimulator c,
     world c)"

subsection \<open>The steering target in the words of the specification\<close>

text \<open>
  Whichever of \<open>maxSteer / speedFactor\<close>, signed toward the pressed direction (\<open>- 1\<close> for
  right, \<open>1\<close> for left), and the negative of the drift-correction angle has the smaller
  magnitude, clamped to \<open>[- maxSteer, maxSteer]\<close>.
\<close>

definition spec_steering_target :: "real \<Rightarrow> real \<Rightarrow> real \<Rightarrow> real" where
  "spec_steering_target direction spd driftCorrection =
     (let speedFactor = clamp (spd * 0.3) 1 MAX_VALUE;
          a = direction * maxSteerVal / speedFactor;
          b = - driftCorrection
      in clamp (if \<bar>a\<bar> \<le> \<bar>b\<bar> then a else b) (- maxSteerVal) maxSteerVal)"

section \<open>Properties\<close>

subsection \<open>Outcomes and loops\<close>

lemma state_of_andThen:
  "(\<And>s'. g (state_of (f s')) = g s') \<Longrightarrow> g (state_of (andThen m f)) = g (state_of m)"
  by (cases m) auto

lemma state_of_forEach:
  "(\<And>i s'. g (state_of (f i s')) = g s') \<Longrightarrow> g (state_of (forEach f idxs s)) = g s"
proof (induction idxs arbitrary: s)
  case Nil
  then show ?case by simp
next
  case (Cons i rest)
  have "g (state_of (andThen (f i s) (forEach f rest))) = g (state_of (f i s))"
    by (rule state_of_andThen) (rule Cons.IH, rule Cons.prems)
  then show ?case using Cons.prems by simp
qed

subsection \<open>The action table\<close>

lemma Car_table_names:
  assumes "Car_table c"
  shows "map fst (actions c) = [''throttle'', ''reverse'', ''left'', ''right'', ''handbrake'', ''horn'']"
proof -
  have "map fst (map (\<lambda>(n, b). (n, eventCodes b)) (actions c)) =
        map fst (map (\<lambda>(n, b). (n, eventCodes b)) Car_actions)"
    using assms by (simp only: Car_table_def)
  then show ?thesis
    by (simp add: case_prod_beta comp_def Car_actions_def)
qed

lemma Car_table_codes:
  assumes "Car_table c"
  shows "boundCodes c = [''KeyW'', ''KeyS'', ''KeyA'', ''KeyD'', ''Space'', ''KeyH'']"
proof -
  have "map snd (map (\<lambda>(n, b). (n, eventCodes b)) (actions c)) =
        map snd (map (\<lambda>(n, b). (n, eventCodes b)) Car_actions)"
    using assms by (simp only: Car_table_def)
  then have "map (\<lambda>(n, b). eventCodes b) (actions c) =
        [[''KeyW''], [''KeyS''], [''KeyA''], [''KeyD''], [''Space''], [''KeyH'']]"
    by (simp add: case_prod_unfold comp_def Car_actions_def new_KeyBinding_def)
  then show ?thesis
    by (simp add: boundCodes_def case_prod_unfold)
qed

lemma action_None_iff: "action n v = None \<longleftrightarrow> n \<notin> set (map fst (actions v))"
  by (simp add: action_def map_of_eq_None_iff)

lemma Car_table_defined:
  assumes "Car_table c"
  shows "\<exists>b. action ''throttle'' c = Some b" "\<exists>b. action ''reverse'' c = Some b"
    "\<exists>b. action ''left'' c = Some b" "\<exists>b. action ''right'' c = Some b"
    "\<exists>b. action ''handbrake'' c = Some b" "\<exists>b. action ''horn'' c = Some b"
  using Car_table_names [OF assms] action_None_iff [of _ c] by auto

lemma Car_table_undefined:
  assumes "Car_table c"
  shows "action ''brake'' c = None" "action ''view'' c = None"
  using Car_table_names [OF assms] by (simp_all add: action_None_iff)

lemma codes_modify:
  "(\<And>b. eventCodes (f b) = eventCodes b) \<Longrightarrow>
   map (\<lambda>(n, b). (n, eventCodes b)) (map (\<lambda>(m, b). if m = n then (m, f b) else (m, b)) xs) =
   map (\<lambda>(n, b). (n, eventCodes b)) xs"
  by (induction xs) auto

lemma Car_table_modifyAction:
  "(\<And>b. eventCodes (f b) = eventCodes b) \<Longrightarrow> Car_table (modifyAction n f c) = Car_table c"
  by (simp add: Car_table_def modifyAction_def codes_modify del: map_map)

lemma Car_table_applyEngineForce [simp]: "Car_table (Vehicle_applyEngineForce x c) = Car_table c"
  by (simp add: Car_table_def Vehicle_applyEngineForce_def)

lemma Car_onInputChange_throws:
  assumes "Car_table c"
  shows "\<exists>c'. Car_onInputChange c = Throws TypeError c'"
proof -
  obtain t r where t: "action ''throttle'' c = Some t" and r: "action ''reverse'' c = Some r"
    using Car_table_defined [OF assms] by blast
  have b: "\<And>x. action ''brake'' (Vehicle_applyEngineForce x c) = None" "action ''brake'' c = None"
    using assms by (simp_all add: Car_table_undefined)
  show ?thesis
    using t r b
    by (cases "justReleased t"; cases "justReleased r")
       (simp_all add: Car_onInputChange_def Vehicle_onInputChange_def justReleasedOf_def
          justPressedOf_def)
qed

lemma Car_triggerAction_throws:
  assumes "Car_table c" "action a c = Some b" "isPressed b \<noteq> val"
  shows "\<exists>c'. Car_triggerAction a val c = Throws TypeError c'"
proof -
  let ?v1 = "modifyAction a (\<lambda>b. b\<lparr>isPressed := val, justPressed := False, justReleased := False\<rparr>) c"
  let ?v2 = "if val then modifyAction a (\<lambda>b. b\<lparr>justPressed := True\<rparr>) ?v1
             else modifyAction a (\<lambda>b. b\<lparr>justReleased := True\<rparr>) ?v1"
  have "Car_table ?v2"
    using assms(1) by (simp add: Car_table_modifyAction)
  then obtain c' where "Car_onInputChange ?v2 = Throws TypeError c'"
    using Car_onInputChange_throws by blast
  then show ?thesis
    using assms(2,3) by (simp add: Car_triggerAction_def Vehicle_triggerAction_def Let_def)
qed

lemma resetControls_loop_faults:
  assumes "Car_table c" "\<exists>a\<in>set ns. isPressedOf a c = Some True"
  shows "\<not> returns (forEach (\<lambda>a. Car_triggerAction a False) ns c)"
  using assms
proof (induction ns)
  case Nil
  then show ?case by simp
next
  case (Cons a ns)
  show ?case
  proof (cases "action a c")
    case None
    then show ?thesis
      by (simp add: Car_triggerAction_def Vehicle_triggerAction_def)
  next
    case (Some b)
    show ?thesis
    proof (cases "isPressed b")
      case True
      then obtain c' where "Car_triggerAction a False c = Throws TypeError c'"
        using Car_triggerAction_throws [OF Cons.prems(1) Some, of False] by auto
      then show ?thesis by simp
    next
      case False
      then have same: "Car_triggerAction a False c = Returns c"
        using Some by (simp add: Car_triggerAction_def Vehicle_triggerAction_def)
      have "\<exists>a\<in>set ns. isPressedOf a c = Some True"
        using Cons.prems(2) Some False by (auto simp: isPressedOf_def)
      then show ?thesis
        using Cons.IH [OF Cons.prems(1)] same by simp
    qed
  qed
qed

lemma Car_table_new_Car: "Car_table (new_Car ws sw)"
  by (simp add: Car_table_def new_Car_def)

lemma Car_table_pressing: "Car_table (pressing n c) = Car_table c"
  by (simp add: pressing_def Car_table_modifyAction)

subsection \<open>\<open>Car.onInputChange\<close>\<close>

text \<open>
  Claim C6. On a car whose action table is the class's table, every call of
  \<open>Car.onInputChange\<close> raises a \<open>TypeError\<close>: the table has no \<open>brake\<close> entry, and
  \<open>this.actions.brake.justPressed\<close> is read unconditionally. Hence \<open>triggerAction\<close>
  raises whenever it changes the pressed state of an action, and \<open>resetControls\<close> raises
  whenever some action is pressed.
\<close>

theorem Car_onInputChange_always_faults:
  assumes "Car_table c"
  shows "(\<exists>c'. Car_onInputChange c = Throws TypeError c') \<and>
         (\<forall>a b val. action a c = Some b \<and> isPressed b \<noteq> val \<longrightarrow>
             \<not> returns (Car_triggerAction a val c)) \<and>
         ((\<exists>a b. action a c = Some b \<and> isPressed b) \<longrightarrow> \<not> returns (Car_resetControls c))"
proof (intro conjI allI impI)
  show "\<exists>c'. Car_onInputChange c = Throws TypeError c'"
    using assms by (rule Car_onInputChange_throws)
next
  fix a b val
  assume "action a c = Some b \<and> isPressed b \<noteq> val"
  then obtain c' where "Car_triggerAction a val c = Throws TypeError c'"
    using Car_triggerAction_throws [OF assms] by blast
  then show "\<not> returns (Car_triggerAction a val c)" by simp
next
  assume "\<exists>a b. action a c = Some b \<and> isPressed b"
  then obtain a b where ab: "action a c = Some b" "isPressed b" by blast
  then have "a \<in> set (map fst (actions c))"
    using action_None_iff [of a c] by auto
  moreover have "isPressedOf a c = Some True"
    using ab by (simp add: isPressedOf_def)
  ultimately have "\<exists>a\<in>set (map fst (actions c)). isPressedOf a c = Some True" by blast
  then show "\<not> returns (Car_resetControls c)"
    unfolding Car_resetControls_def Vehicle_resetControls_def
    using resetControls_loop_faults [OF assms, of "map fst (actions c)"]
    by (simp add: Car_triggerAction_def)
qed

text \<open>The claim at a car that holds the throttle.\<close>

theorem Car_onInputChange_always_faults_witness:
  "Car_table (pressing ''throttle'' (new_Car [] None)) \<and>
   (\<exists>c'. Car_onInputChange (pressing ''throttle'' (new_Car [] None)) = Throws TypeError c') \<and>
   \<not> returns (Car_triggerAction ''throttle'' False (pressing ''throttle'' (new_Car [] None))) \<and>
   \<not> returns (Car_resetControls (pressing ''throttle'' (new_Car [] None)))"
proof -
  let ?c = "pressing ''throttle'' (new_Car [] None)"
  have t: "Car_table ?c"
    by (simp add: Car_table_pressing Car_table_new_Car)
  have a: "action ''throttle'' ?c =
      Some \<lparr>eventCodes = [''KeyW''], isPressed = True, justPressed = False, justReleased = False\<rparr>"
    by (simp add: pressing_def modifyAction_def new_Car_def Car_actions_def new_KeyBinding_def
        action_def)
  show ?thesis
    using t a Car_onInputChange_always_faults [OF t] 
    by (metis KeyBinding.select_convs(2))
qed

subsection \<open>\<open>Car.handleKeyboardEvent\<close>\<close>

text \<open>
  Claim C7. For every key code bound in the car's action table (and for \<open>KeyC\<close> and
  \<open>KeyR\<close>, with or without Shift), \<open>Car.handleKeyboardEvent\<close> returns with the whole
  state as it was: the override looks the code up among the action names, where no code
  is found, and never reaches the binding lookup of \<open>Vehicle.handleKeyboardEvent\<close>. So
  no flag of any action changes, \<open>onInputChange\<close> is not called, the input receiver is
  not handed over and no restart is requested.
\<close>

theorem Car_handleKeyboardEvent_changes_nothing:
  assumes "Car_table c" "code \<in> set (boundCodes c) \<union> {''KeyC'', ''KeyR''}"
  shows "Car_handleKeyboardEvent event code pressed c = Returns c"
proof -
  have "code \<notin> set (map fst (actions c))"
    using assms by (auto simp: Car_table_codes Car_table_names)
  then have "action code c = None"
    by (simp add: action_None_iff)
  then show ?thesis
    by (simp add: Car_handleKeyboardEvent_def)
qed

theorem Car_handleKeyboardEvent_changes_nothing_witness:
  "Car_table (new_Car [] None) \<and> ''KeyW'' \<in> set (boundCodes (new_Car [] None)) \<union> {''KeyC'', ''KeyR''} \<and>
   Car_handleKeyboardEvent \<lparr>shiftKey = False\<rparr> ''KeyW'' True (new_Car [] None) = Returns (new_Car [] None)"
proof -
  have t: "Car_table (new_Car [] None)" by (rule Car_table_new_Car)
  have k: "''KeyW'' \<in> set (boundCodes (new_Car [] None)) \<union> {''KeyC'', ''KeyR''}"
    by (simp add: Car_table_codes [OF t])
  show ?thesis
    using t k Car_handleKeyboardEvent_changes_nothing [OF t k] by simp
qed

text \<open>For contrast, the handler of the base class finds the binding of \<open>KeyW\<close> and presses
  the throttle.\<close>

lemma base_handler_contrast:
  "isPressedOf ''throttle'' (state_of (Vehicle_handleKeyboardEvent Vehicle_onInputChange
      \<lparr>shiftKey = False\<rparr> ''KeyW'' True (new_Car [] None))) = Some True"
  by (simp add: Vehicle_handleKeyboardEvent_def new_Car_def Car_actions_def new_KeyBinding_def
      action_def Vehicle_triggerAction_def modifyAction_def Vehicle_onInputChange_def isPressedOf_def)

subsection \<open>\<open>resetControls\<close>\<close>

text \<open>
  Claim C9 at a car that holds the throttle and the left key. \<open>resetControls\<close> releases
  the throttle, calls \<open>onInputChange\<close>, which raises (claim C6), and ends there: the
  \<open>justReleased\<close> flag of the throttle stays set, and the left key is still pressed.
\<close>

theorem resetControls_on_a_Car_holding_keys:
  "\<not> returns (Car_resetControls (pressing ''left'' (pressing ''throttle'' (new_Car [] None)))) \<and>
   action ''throttle'' (state_of (Car_resetControls (pressing ''left'' (pressing ''throttle'' (new_Car [] None))))) =
     Some \<lparr>eventCodes = [''KeyW''], isPressed = False, justPressed = False, justReleased = True\<rparr> \<and>
   action ''left'' (state_of (Car_resetControls (pressing ''left'' (pressing ''throttle'' (new_Car [] None))))) =
     Some \<lparr>eventCodes = [''KeyA''], isPressed = True, justPressed = False, justReleased = False\<rparr>"
  by (simp add: Car_resetControls_def Vehicle_resetControls_def Vehicle_triggerAction_def
      Car_onInputChange_def Vehicle_onInputChange_def pressing_def modifyAction_def new_Car_def
      Car_actions_def new_KeyBinding_def action_def justReleasedOf_def justPressedOf_def
      Vehicle_applyEngineForce_def)

subsection \<open>\<open>Vehicle.update\<close> and \<open>Car.update\<close>\<close>

text \<open>Every call of \<open>Vehicle.update\<close> raises at \<open>super.position\<close> and leaves the state as it
  was; \<open>Car.update\<close> starts with \<open>super.update\<close>, so none of its blocks is reached.\<close>

lemma Vehicle_update_throws: "Vehicle_update wt dt v = Throws TypeError v"
  by (simp add: Vehicle_update_def super_position_def)

lemma Car_update_throws: "Car_update wt dt c = Throws TypeError c"
  by (simp add: Car_update_def Vehicle_update_throws)

lemma Car_table_actions: "actions c' = actions c \<Longrightarrow> Car_table c' = Car_table c"
  by (simp add: Car_table_def)

lemma Car_table_pressed:
  assumes "Car_table c"
  shows "\<exists>t r l rt h. isPressedOf ''throttle'' c = Some t \<and> isPressedOf ''reverse'' c = Some r \<and>
     isPressedOf ''left'' c = Some l \<and> isPressedOf ''right'' c = Some rt \<and>
     isPressedOf ''handbrake'' c = Some h"
  using Car_table_defined [OF assms] by (auto simp: isPressedOf_def)

lemma isPressedOf_actions: "actions c' = actions c \<Longrightarrow> isPressedOf n c' = isPressedOf n c"
  by (simp add: isPressedOf_def action_def)

subsection \<open>\<open>Car.physicsPreStep\<close>\<close>

lemma and_also_Some [simp]: "and_also (Some a) (Some b) = Some (a \<and> b)"
  by (cases a) auto

lemma or_else_Some [simp]: "or_else (Some a) (Some b) = Some (a \<or> b)"
  by (cases a) auto

lemma spin_left_right_result:
  assumes "Car_table c"
  shows "\<exists>c'. spin_left_right f e c = Returns c' \<and> pre_frame c' = pre_frame c \<and>
     angularVelocity (collision c') =
       (if held ''right'' c \<and> \<not> held ''left'' c
        then (if dot (angularVelocity (collision c)) f < maxAirSpinMagnitude
              then vadd (angularVelocity (collision c)) e else angularVelocity (collision c))
        else if held ''left'' c \<and> \<not> held ''right'' c
        then (if dot (angularVelocity (collision c)) f > - maxAirSpinMagnitude
              then vsub (angularVelocity (collision c)) e else angularVelocity (collision c))
        else angularVelocity (collision c))"
proof -
  obtain l r where "isPressedOf ''left'' c = Some l" "isPressedOf ''right'' c = Some r"
    using Car_table_pressed [OF assms] by blast
  then show ?thesis
    by (cases l; cases r) (simp_all add: spin_left_right_def held_def pre_frame_def)
qed

lemma spin_forwards_backwards_result:
  assumes "Car_table c"
  shows "\<exists>c'. spin_forwards_backwards r e c = Returns c' \<and> pre_frame c' = pre_frame c \<and>
     angularVelocity (collision c') =
       (if canTiltForwards c \<and> held ''throttle'' c \<and> \<not> held ''reverse'' c
        then (if dot (angularVelocity (collision c)) r < maxAirSpinMagnitude
              then vadd (angularVelocity (collision c)) e else angularVelocity (collision c))
        else if held ''reverse'' c \<and> \<not> held ''throttle'' c
        then (if dot (angularVelocity (collision c)) r > - maxAirSpinMagnitude
              then vsub (angularVelocity (collision c)) e else angularVelocity (collision c))
        else angularVelocity (collision c))"
proof -
  obtain t rv where "isPressedOf ''throttle'' c = Some t" "isPressedOf ''reverse'' c = Some rv"
    using Car_table_pressed [OF assms] by blast
  then show ?thesis
    by (cases t; cases rv; cases "canTiltForwards c")
       (simp_all add: spin_forwards_backwards_def held_def pre_frame_def)
qed

lemma steering_target_result:
  assumes "Car_table c"
  shows "\<exists>c'. steering_target sa f c = Returns c' \<and> collision c' = collision c \<and>
     actions c' = actions c \<and> airSpinTimer c' = airSpinTimer c \<and> speed c' = speed c \<and>
     target (steeringSimulator c') =
       (if held ''right'' c
        then clamp (min (- maxSteerVal / clamp (speed c * 0.3) 1 MAX_VALUE)
                        (- sa (normalize (velocity (collision c))) f))
               (- maxSteerVal) maxSteerVal
        else if held ''left'' c
        then clamp (max (maxSteerVal / clamp (speed c * 0.3) 1 MAX_VALUE)
                        (- sa (normalize (velocity (collision c))) f))
               (- maxSteerVal) maxSteerVal
        else 0)"
proof -
  obtain l r where "isPressedOf ''left'' c = Some l" "isPressedOf ''right'' c = Some r"
    using Car_table_pressed [OF assms] by blast
  then show ?thesis
    by (cases l; cases r) (simp_all add: steering_target_def held_def Let_def)
qed

lemma pre_frame_table: "pre_frame c' = pre_frame c \<Longrightarrow> Car_table c' = Car_table c"
  by (simp add: pre_frame_def Car_table_def)

lemma pre_frame_held: "pre_frame c' = pre_frame c \<Longrightarrow> held n c' = held n c"
  by (simp add: pre_frame_def held_def isPressedOf_def action_def)

lemma Car_physicsPreStep_result:
  assumes "Car_table c"
  shows "\<exists>c'. Car_physicsPreStep sa body c = Returns c' \<and> actions c' = actions c \<and>
     airSpinTimer c' = airSpinTimer c \<and>
     speed c' = dot (velocity (collision c)) (applyQuaternion (Vec3 0 0 1) (quaternion_Body body)) \<and>
     angularVelocity (collision c') =
       gated_spin (canTiltForwards c \<and> held ''throttle'' c \<and> \<not> held ''reverse'' c)
         (held ''reverse'' c \<and> \<not> held ''throttle'' c)
         (applyQuaternion (Vec3 1 0 0) (quaternion_Body body))
         (scale (applyQuaternion (Vec3 1 0 0) (quaternion_Body body))
            (airSpinAcceleration * airSpinInfluence (airSpinTimer c) (speed c')))
         (gated_spin (held ''right'' c \<and> \<not> held ''left'' c) (held ''left'' c \<and> \<not> held ''right'' c)
            (applyQuaternion (Vec3 0 0 1) (quaternion_Body body))
            (scale (applyQuaternion (Vec3 0 0 1) (quaternion_Body body))
               (airSpinAcceleration *
                 (airSpinInfluence (airSpinTimer c) (speed c') +
                  flipOverInfluence (applyQuaternion (Vec3 0 1 0) (quaternion_Body body)) (speed c'))))
            (angularVelocity (collision c))) \<and>
     target (steeringSimulator c') =
       (if held ''right'' c
        then clamp (min (- maxSteerVal / clamp (speed c' * 0.3) 1 MAX_VALUE)
                        (- sa (normalize (velocity (collision c)))
                             (applyQuaternion (Vec3 0 0 1) (quaternion_Body body))))
               (- maxSteerVal) maxSteerVal
        else if held ''left'' c
        then clamp (max (maxSteerVal / clamp (speed c' * 0.3) 1 MAX_VALUE)
                        (- sa (normalize (velocity (collision c)))
                             (applyQuaternion (Vec3 0 0 1) (quaternion_Body body))))
               (- maxSteerVal) maxSteerVal
        else 0)"
proof -
  define f where "f = applyQuaternion (Vec3 0 0 1) (quaternion_Body body)"
  define r where "r = applyQuaternion (Vec3 1 0 0) (quaternion_Body body)"
  define u where "u = applyQuaternion (Vec3 0 1 0) (quaternion_Body body)"
  define c1 where "c1 = c\<lparr>speed := dot (velocity (collision c)) f\<rparr>"
  define ef where "ef = scale f (airSpinAcceleration *
      (airSpinInfluence (airSpinTimer c1) (speed c1) + flipOverInfluence u (speed c1)))"
  define er where "er = scale r (airSpinAcceleration * airSpinInfluence (airSpinTimer c1) (speed c1))"
  define c2 where "c2 = state_of (spin_left_right f ef c1)"
  define c3 where "c3 = state_of (spin_forwards_backwards r er c2)"
  define c4 where "c4 = state_of (steering_target sa f c3)"
  have t1: "Car_table c1"
    using assms by (simp add: c1_def Car_table_def)
  have h1: "held n c1 = held n c" for n
    by (simp add: c1_def held_def isPressedOf_def action_def)
  have r2: "spin_left_right f ef c1 = Returns c2" and p2: "pre_frame c2 = pre_frame c1"
    and w2: "angularVelocity (collision c2) =
       gated_spin (held ''right'' c1 \<and> \<not> held ''left'' c1) (held ''left'' c1 \<and> \<not> held ''right'' c1)
         f ef (angularVelocity (collision c1))"
    using spin_left_right_result [OF t1, of f ef]
    by (auto simp: c2_def gated_spin_def)
  have t2: "Car_table c2"
    using t1 pre_frame_table [OF p2] by simp
  have r3: "spin_forwards_backwards r er c2 = Returns c3" and p3: "pre_frame c3 = pre_frame c2"
    and w3: "angularVelocity (collision c3) =
       gated_spin (canTiltForwards c2 \<and> held ''throttle'' c2 \<and> \<not> held ''reverse'' c2)
         (held ''reverse'' c2 \<and> \<not> held ''throttle'' c2) r er
         (angularVelocity (collision c2))"
    using spin_forwards_backwards_result [OF t2, of r er]
    by (auto simp: c3_def gated_spin_def)
  have t3: "Car_table c3"
    using t2 pre_frame_table [OF p3] by simp
  have r4: "steering_target sa f c3 = Returns c4" and b4: "collision c4 = collision c3"
    and a4: "actions c4 = actions c3" and s4: "airSpinTimer c4 = airSpinTimer c3"
    and v4: "speed c4 = speed c3"
    and g4: "target (steeringSimulator c4) =
       (if held ''right'' c3
        then clamp (min (- maxSteerVal / clamp (speed c3 * 0.3) 1 MAX_VALUE)
                        (- sa (normalize (velocity (collision c3))) f))
               (- maxSteerVal) maxSteerVal
        else if held ''left'' c3
        then clamp (max (maxSteerVal / clamp (speed c3 * 0.3) 1 MAX_VALUE)
                        (- sa (normalize (velocity (collision c3))) f))
               (- maxSteerVal) maxSteerVal
        else 0)"
    using steering_target_result [OF t3, of sa f] by (auto simp: c4_def)
  have run: "Car_physicsPreStep sa body c = Returns c4"
    unfolding Car_physicsPreStep_def Let_def
    unfolding f_def [symmetric] r_def [symmetric] u_def [symmetric]
    unfolding c1_def [symmetric]
    unfolding ef_def [symmetric] er_def [symmetric]
    by (simp add: r2 r3 r4)
  have p31: "pre_frame c3 = pre_frame c1"
    using p3 p2 by simp
  have h3: "held n c3 = held n c" for n
    using pre_frame_held [OF p31] h1 by simp
  have h2: "held n c2 = held n c" for n
    using pre_frame_held [OF p2] h1 by simp
  have k2: "canTiltForwards c2 = canTiltForwards c"
    using p2 by (simp add: pre_frame_def c1_def)
  have sp: "speed c3 = dot (velocity (collision c)) f" "airSpinTimer c3 = airSpinTimer c"
    "velocity (collision c3) = velocity (collision c)" "actions c3 = actions c"
    using p31 by (simp_all add: pre_frame_def c1_def)
  have c1s: "speed c1 = dot (velocity (collision c)) f" "airSpinTimer c1 = airSpinTimer c"
    "angularVelocity (collision c1) = angularVelocity (collision c)"
    by (simp_all add: c1_def)
  show ?thesis
    unfolding f_def [symmetric] r_def [symmetric] u_def [symmetric]
    using run
    by (simp add: a4 s4 v4 b4 g4 w3 w2 h1 h2 h3 k2 sp c1s ef_def er_def)
qed

subsection \<open>What no call writes\<close>

lemma keeps_option:
  "untouched s' = y \<Longrightarrow> (\<And>b. untouched (state_of (K b)) = y) \<Longrightarrow>
   untouched (state_of (case opt of None \<Rightarrow> Throws e s' | Some b \<Rightarrow> K b)) = y"
  by (cases opt) auto

lemma keeps_bool:
  "untouched (state_of A) = y \<Longrightarrow> untouched (state_of B) = y \<Longrightarrow>
   untouched (state_of (case b of True \<Rightarrow> A | False \<Rightarrow> B)) = y"
  by (cases b) auto

lemma keeps_if:
  "untouched (state_of A) = y \<Longrightarrow> untouched (state_of B) = y \<Longrightarrow>
   untouched (state_of (if P then A else B)) = y"
  by simp

lemma keeps_andThen:
  "untouched (state_of m) = y \<Longrightarrow> (\<And>s'. untouched s' = y \<Longrightarrow> untouched (state_of (f s')) = y) \<Longrightarrow>
   untouched (state_of (andThen m f)) = y"
  by (cases m) auto

lemma keeps_forEach:
  "(\<And>i s'. untouched (state_of (f i s')) = untouched s') \<Longrightarrow>
   untouched (state_of (forEach f idxs s)) = untouched s"
  by (rule state_of_forEach)

lemma untouched_spin_left_right: "untouched (state_of (spin_left_right f e c)) = untouched c"
  unfolding spin_left_right_def Let_def
  by (intro keeps_option keeps_bool) (simp_all add: untouched_def drivetrain_def)

lemma untouched_spin_forwards_backwards:
  "untouched (state_of (spin_forwards_backwards r e c)) = untouched c"
  unfolding spin_forwards_backwards_def Let_def
  by (intro keeps_option keeps_bool) (simp_all add: untouched_def drivetrain_def)

lemma untouched_steering_target: "untouched (state_of (steering_target sa f c)) = untouched c"
  unfolding steering_target_def Let_def
  by (intro keeps_option keeps_if) (simp_all add: untouched_def drivetrain_def)

lemma untouched_Car_physicsPreStep:
  "untouched (state_of (Car_physicsPreStep sa body c)) = untouched c"
proof -
  have "untouched (state_of (andThen (spin_left_right f ef c1)
          (\<lambda>c2. andThen (spin_forwards_backwards r er c2) (steering_target sa f)))) = untouched c1"
    for f ef r er c1
    by (intro keeps_andThen)
       (simp_all add: untouched_spin_left_right untouched_spin_forwards_backwards
          untouched_steering_target)
  then show ?thesis
    by (simp add: Car_physicsPreStep_def Let_def) (simp add: untouched_def drivetrain_def)
qed

lemma untouched_modifyAction [simp]: "untouched (modifyAction n f c) = untouched c"
  by (simp add: untouched_def drivetrain_def modifyAction_def)

lemma untouched_Car_onInputChange: "untouched (state_of (Car_onInputChange c)) = untouched c"
  unfolding Car_onInputChange_def Vehicle_onInputChange_def Vehicle_toggleFirstPersonView_def
    Vehicle_setFirstPersonView_def Let_def andThen.simps
  by (intro keeps_option keeps_if)
     (simp_all add: untouched_def drivetrain_def Vehicle_applyEngineForce_def Car_setBrake_def)

lemma untouched_Car_triggerAction:
  "untouched (state_of (Car_triggerAction a val c)) = untouched c"
  unfolding Car_triggerAction_def Vehicle_triggerAction_def Let_def
  by (intro keeps_option keeps_if keeps_andThen)
     (simp_all add: untouched_Car_onInputChange)

lemma untouched_Car_resetControls: "untouched (state_of (Car_resetControls c)) = untouched c"
proof -
  have "untouched (state_of (Vehicle_triggerAction Car_onInputChange a False s)) = untouched s"
    for a s
    using untouched_Car_triggerAction [of a False s] by (simp only: Car_triggerAction_def)
  then show ?thesis
    unfolding Car_resetControls_def Vehicle_resetControls_def
    by (rule keeps_forEach)
qed

lemma untouched_exec: "untouched (state_of (exec sa wt call c)) = untouched c"
proof (cases call)
  case (Update dt)
  then show ?thesis by (simp add: Car_update_throws)
next
  case (PhysicsPreStep body)
  then show ?thesis by (simp add: untouched_Car_physicsPreStep)
next
  case (HandleKeyboardEvent e code pressed)
  then show ?thesis by (simp add: Car_handleKeyboardEvent_def)
next
  case (TriggerAction a val)
  then show ?thesis by (simp add: untouched_Car_triggerAction)
next
  case ResetControls
  then show ?thesis by (simp add: untouched_Car_resetControls)
next
  case (SetPosition x y z)
  then show ?thesis by (simp add: Vehicle_setPosition_def untouched_def drivetrain_def)
next
  case (Integrate body rcv)
  then show ?thesis by (simp add: untouched_def drivetrain_def)
qed

lemma untouched_run: "untouched (run sa wt calls c) = untouched c"
  by (induction calls arbitrary: c) (simp_all add: untouched_exec)

lemma untouched_new_Car: "untouched (new_Car ws sw) = ((1, 0, 2 / 10), 0, False)"
  by (simp add: untouched_def drivetrain_def new_Car_def)

subsection \<open>Concrete cars\<close>

lemma Car_table_grounded [simp]: "Car_table (grounded n c) = Car_table c"
  by (simp add: grounded_def Car_table_def)

lemma Car_table_four_wheel_car: "Car_table four_wheel_car"
  by (simp add: four_wheel_car_def Let_def Car_table_new_Car)

lemma held_grounded [simp]: "held a (grounded n c) = held a c"
  by (simp add: held_def isPressedOf_def action_def grounded_def)

lemma four_wheel_car_fields:
  "actions four_wheel_car = Car_actions"
  "engineForces four_wheel_car = [0, 0, 0, 0]"
  "numWheelsOnGround (rayCastVehicle four_wheel_car) = 0"
  "gear four_wheel_car = 1" "shiftTimer four_wheel_car = 0" "airSpinTimer four_wheel_car = 0"
  "canTiltForwards four_wheel_car = False"
  "speed four_wheel_car = 0"
  "collision four_wheel_car = new_Body"
  by (simp_all add: four_wheel_car_def Let_def new_Car_def engineForces_def new_WheelInfo_def
      untouched_def drivetrain_def)

lemma pressing_fields [simp]:
  "engineForces (pressing k c) = engineForces c"
  "rayCastVehicle (pressing k c) = rayCastVehicle c"
  "untouched (pressing k c) = untouched c"
  "speed (pressing k c) = speed c"
  "collision (pressing k c) = collision c"
  by (simp_all add: pressing_def modifyAction_def engineForces_def untouched_def drivetrain_def)

lemma grounded_fields [simp]:
  "engineForces (grounded n c) = engineForces c"
  "numWheelsOnGround (rayCastVehicle (grounded n c)) = n"
  "untouched (grounded n c) = untouched c"
  "speed (grounded n c) = speed c"
  "collision (grounded n c) = collision c"
  "actions (grounded n c) = actions c"
  by (simp_all add: grounded_def engineForces_def untouched_def drivetrain_def)

lemma held_pressing_four_wheel_car:
  "held ''throttle'' (pressing ''throttle'' four_wheel_car)"
  "held ''right'' (pressing ''right'' four_wheel_car)"
  "\<not> held ''left'' (pressing ''right'' four_wheel_car)"
  "\<not> held ''throttle'' (pressing ''right'' four_wheel_car)"
  "\<not> held ''reverse'' (pressing ''right'' four_wheel_car)"
  by (simp_all add: held_def isPressedOf_def action_def pressing_def modifyAction_def
      four_wheel_car_fields Car_actions_def new_KeyBinding_def)

lemma Car_table_collision [simp]: "Car_table (c\<lparr>collision := b\<rparr>) = Car_table c"
  by (simp add: Car_table_def)

lemma held_collision [simp]: "held a (c\<lparr>collision := b\<rparr>) = held a c"
  by (simp add: held_def isPressedOf_def action_def)

lemma Car_table_right: "Car_table (pressing ''right'' four_wheel_car)"
  by (simp add: Car_table_pressing Car_table_four_wheel_car)

lemma right_car_fields:
  "airSpinTimer (pressing ''right'' four_wheel_car) = 0"
  "canTiltForwards (pressing ''right'' four_wheel_car) = False"
  "speed (pressing ''right'' four_wheel_car) = 0"
  by (simp_all add: pressing_def modifyAction_def four_wheel_car_fields)

lemma Car_physicsPreStep_angularVelocity:
  assumes "Car_table c"
  shows "\<exists>c'. Car_physicsPreStep sa body c = Returns c' \<and>
     angularVelocity (collision c') =
       gated_spin (canTiltForwards c \<and> held ''throttle'' c \<and> \<not> held ''reverse'' c)
         (held ''reverse'' c \<and> \<not> held ''throttle'' c)
         (applyQuaternion (Vec3 1 0 0) (quaternion_Body body))
         (scale (applyQuaternion (Vec3 1 0 0) (quaternion_Body body))
            (airSpinAcceleration * airSpinInfluence (airSpinTimer c)
               (dot (velocity (collision c)) (applyQuaternion (Vec3 0 0 1) (quaternion_Body body)))))
         (gated_spin (held ''right'' c \<and> \<not> held ''left'' c) (held ''left'' c \<and> \<not> held ''right'' c)
            (applyQuaternion (Vec3 0 0 1) (quaternion_Body body))
            (scale (applyQuaternion (Vec3 0 0 1) (quaternion_Body body))
               (airSpinAcceleration *
                 (airSpinInfluence (airSpinTimer c)
                    (dot (velocity (collision c)) (applyQuaternion (Vec3 0 0 1) (quaternion_Body body))) +
                  flipOverInfluence (applyQuaternion (Vec3 0 1 0) (quaternion_Body body))
                    (dot (velocity (collision c)) (applyQuaternion (Vec3 0 0 1) (quaternion_Body body))))))
            (angularVelocity (collision c)))"
proof -
  obtain c' where c': "Car_physicsPreStep sa body c = Returns c'"
    and s': "speed c' = dot (velocity (collision c)) (applyQuaternion (Vec3 0 0 1) (quaternion_Body body))"
    and w': "angularVelocity (collision c') =
       gated_spin (canTiltForwards c \<and> held ''throttle'' c \<and> \<not> held ''reverse'' c)
         (held ''reverse'' c \<and> \<not> held ''throttle'' c)
         (applyQuaternion (Vec3 1 0 0) (quaternion_Body body))
         (scale (applyQuaternion (Vec3 1 0 0) (quaternion_Body body))
            (airSpinAcceleration * airSpinInfluence (airSpinTimer c) (speed c')))
         (gated_spin (held ''right'' c \<and> \<not> held ''left'' c) (held ''left'' c \<and> \<not> held ''right'' c)
            (applyQuaternion (Vec3 0 0 1) (quaternion_Body body))
            (scale (applyQuaternion (Vec3 0 0 1) (quaternion_Body body))
               (airSpinAcceleration *
                 (airSpinInfluence (airSpinTimer c) (speed c') +
                  flipOverInfluence (applyQuaternion (Vec3 0 1 0) (quaternion_Body body)) (speed c'))))
            (angularVelocity (collision c)))"
    using Car_physicsPreStep_result [OF assms, of sa body] by blast
  show ?thesis
    using c' w' unfolding s' by blast
qed

lemma body_fields:
  "velocity inverted_spinning_body = Vec3 0 0 0"
  "angularVelocity inverted_spinning_body = Vec3 0 0 (19 / 10)"
  "applyQuaternion (Vec3 0 0 1) (quaternion_Body inverted_spinning_body) = Vec3 0 0 1"
  "applyQuaternion (Vec3 1 0 0) (quaternion_Body inverted_spinning_body) = Vec3 (- 1) 0 0"
  "applyQuaternion (Vec3 0 1 0) (quaternion_Body inverted_spinning_body) = Vec3 0 (- 1) 0"
  "velocity tilted_body = Vec3 0 0 0"
  "angularVelocity tilted_body = Vec3 0 0 0"
  "applyQuaternion (Vec3 0 0 1) (quaternion_Body tilted_body) = Vec3 0 0 1"
  "applyQuaternion (Vec3 1 0 0) (quaternion_Body tilted_body) = Vec3 (7 / 25) (24 / 25) 0"
  "applyQuaternion (Vec3 0 1 0) (quaternion_Body tilted_body) = Vec3 (- (24 / 25)) (7 / 25) 0"
  by (simp_all add: inverted_spinning_body_def tilted_body_def new_Body_def applyQuaternion_def)

lemmas evaluate_spin =
  body_fields held_pressing_four_wheel_car right_car_fields gated_spin_def dot_def vadd_def
  vsub_def scale_def airSpinInfluence_def flipOverInfluence_def clamp_def
  maxAirSpinMagnitude_def airSpinAcceleration_def

subsection \<open>The drivetrain\<close>

text \<open>
  Claim C1, as amended. The car has no gear table and no shifting: no method reads or
  writes \<open>gear\<close>, \<open>shiftTimer\<close> or \<open>timeToShift\<close>. After any sequence of update ticks,
  pre-step hooks, input calls, \<open>setPosition\<close> calls and physics integration the three
  fields have the values they had before; on a constructed car the gear is 1, the shift
  timer 0 and the time to shift 0.2 for ever, whatever the speed.
\<close>

theorem gear_and_shift_timer_never_change:
  "gear (run sa wt calls c) = gear c \<and>
   shiftTimer (run sa wt calls c) = shiftTimer c \<and>
   timeToShift (run sa wt calls c) = timeToShift c \<and>
   gear (run sa wt calls (new_Car ws sw)) = 1 \<and>
   shiftTimer (run sa wt calls (new_Car ws sw)) = 0 \<and>
   timeToShift (run sa wt calls (new_Car ws sw)) = 0.2"
proof -
  have 1: "drivetrain (run sa wt calls c) = drivetrain c"
    using untouched_run [of sa wt calls c] by (simp add: untouched_def)
  have 2: "drivetrain (run sa wt calls (new_Car ws sw)) = (1, 0, 2 / 10)"
    using untouched_run [of sa wt calls "new_Car ws sw"] untouched_new_Car [of ws sw]
    by (simp add: untouched_def)
  have a: "gear (run sa wt calls c) = gear c" "shiftTimer (run sa wt calls c) = shiftTimer c"
    "timeToShift (run sa wt calls c) = timeToShift c"
    using 1 unfolding drivetrain_def by simp_all
  have b: "gear (run sa wt calls (new_Car ws sw)) = 1"
    "shiftTimer (run sa wt calls (new_Car ws sw)) = 0"
    "timeToShift (run sa wt calls (new_Car ws sw)) = 0.2"
    using 2 unfolding drivetrain_def by simp_all
  show ?thesis
    by (intro conjI a b)
qed

text \<open>
  Claim C1 as stated fails: a grounded car in gear 1 with the throttle held, its shift
  timer at 0 and its speed at 100 (above every threshold the documentation lists for a
  gear) is still in gear 1 after the update tick; the claim has it shift to gear 2.
\<close>

theorem no_upshift_counterexample:
  "speed ((grounded 4 (pressing ''throttle'' four_wheel_car))\<lparr>speed := 100\<rparr>) = 100 \<and>
   shiftTimer ((grounded 4 (pressing ''throttle'' four_wheel_car))\<lparr>speed := 100\<rparr>) = 0 \<and>
   gear ((grounded 4 (pressing ''throttle'' four_wheel_car))\<lparr>speed := 100\<rparr>) = 1 \<and>
   gear (state_of (Car_update keptWheelTransform (1 / 60)
     ((grounded 4 (pressing ''throttle'' four_wheel_car))\<lparr>speed := 100\<rparr>))) = 1"
proof -
  let ?c = "(grounded 4 (pressing ''throttle'' four_wheel_car))\<lparr>speed := 100\<rparr>"
  have "untouched ?c = untouched four_wheel_car"
    by (simp add: untouched_def drivetrain_def grounded_def pressing_def modifyAction_def)
  then have "gear ?c = 1" "shiftTimer ?c = 0"
    by (simp_all add: four_wheel_car_fields untouched_def drivetrain_def)
  then show ?thesis
    by (simp add: Car_update_throws)
qed

subsection \<open>The air-time accumulator\<close>


subsection \<open>The engine\<close>

text \<open>
  Claim C5 at a grounded car that holds the throttle: the update tick raises a
  \<open>TypeError\<close> in \<open>super.update\<close> and ends before the engine block, so no engine force
  reaches the wheels, which carry the force 0 they were constructed with.
\<close>

theorem grounded_throttle_tick_transmits_nothing:
  "held ''throttle'' (grounded 4 (pressing ''throttle'' four_wheel_car)) \<and>
   numWheelsOnGround (rayCastVehicle (grounded 4 (pressing ''throttle'' four_wheel_car))) = 4 \<and>
   Car_update keptWheelTransform (1 / 60) (grounded 4 (pressing ''throttle'' four_wheel_car)) =
     Throws TypeError (grounded 4 (pressing ''throttle'' four_wheel_car)) \<and>
   engineForces (state_of (Car_update keptWheelTransform (1 / 60)
     (grounded 4 (pressing ''throttle'' four_wheel_car)))) = [0, 0, 0, 0]"
  by (simp add: Car_update_throws held_pressing_four_wheel_car four_wheel_car_fields)

subsection \<open>Spin about the forward and the right axis\<close>

lemma dot_vadd_scale: "dot (vadd w (scale a k)) b = dot w b + k * dot a b"
  by (simp add: dot_def vadd_def scale_def algebra_simps)

lemma dot_vsub_scale: "dot (vsub w (scale a k)) b = dot w b - k * dot a b"
  by (simp add: dot_def vsub_def scale_def algebra_simps)


lemma gated_spin_other_axis:
  "dot a b = 0 \<Longrightarrow> dot (gated_spin A B a (scale a k) w) b = dot w b"
  by (simp add: gated_spin_def dot_vadd_scale dot_vsub_scale)

lemma gated_spin_same_axis:
  assumes "dot a a = 1" "0 \<le> k"
  shows "\<bar>dot (gated_spin A B a (scale a k) w) a\<bar> \<le> max \<bar>dot w a\<bar> (maxAirSpinMagnitude + k)"
  using assms
  by (simp add: gated_spin_def dot_vadd_scale dot_vsub_scale maxAirSpinMagnitude_def) linarith

lemma clamp_unit: "0 \<le> clamp x 0 1" "clamp x 0 1 \<le> 1"
  by (simp_all add: clamp_def)

lemma clamp_speed_sum: "clamp s 0 1 + clamp (1 - s) 0 1 = 1"
  by (simp add: clamp_def max_def min_def)

lemma unit_axes:
  assumes "qx q * qx q + qy q * qy q + qz q * qz q + qw q * qw q = 1"
  shows "dot (applyQuaternion (Vec3 0 0 1) q) (applyQuaternion (Vec3 0 0 1) q) = 1"
    and "dot (applyQuaternion (Vec3 1 0 0) q) (applyQuaternion (Vec3 1 0 0) q) = 1"
    and "dot (applyQuaternion (Vec3 0 0 1) q) (applyQuaternion (Vec3 1 0 0) q) = 0"
    and "dot (applyQuaternion (Vec3 1 0 0) q) (applyQuaternion (Vec3 0 0 1) q) = 0"
    and "\<bar>vy (applyQuaternion (Vec3 0 1 0) q)\<bar> \<le> 1"
proof -
  obtain a b c d where q: "q = Quaternion a b c d" by (cases q)
  have n: "a * a + b * b + c * c + d * d = 1" using assms q by simp
  have sq: "(a * a + b * b + c * c + d * d) * (a * a + b * b + c * c + d * d) = 1"
    using n by simp
  have "dot (applyQuaternion (Vec3 0 0 1) q) (applyQuaternion (Vec3 0 0 1) q) =
        (a * a + b * b + c * c + d * d) * (a * a + b * b + c * c + d * d)"
    by (simp add: q applyQuaternion_def dot_def Let_def algebra_simps)
  then show "dot (applyQuaternion (Vec3 0 0 1) q) (applyQuaternion (Vec3 0 0 1) q) = 1"
    using sq by simp
  have "dot (applyQuaternion (Vec3 1 0 0) q) (applyQuaternion (Vec3 1 0 0) q) =
        (a * a + b * b + c * c + d * d) * (a * a + b * b + c * c + d * d)"
    by (simp add: q applyQuaternion_def dot_def Let_def algebra_simps)
  then show "dot (applyQuaternion (Vec3 1 0 0) q) (applyQuaternion (Vec3 1 0 0) q) = 1"
    using sq by simp
  show "dot (applyQuaternion (Vec3 0 0 1) q) (applyQuaternion (Vec3 1 0 0) q) = 0"
    by (simp add: q applyQuaternion_def dot_def Let_def algebra_simps)
  show "dot (applyQuaternion (Vec3 1 0 0) q) (applyQuaternion (Vec3 0 0 1) q) = 0"
    by (simp add: q applyQuaternion_def dot_def Let_def algebra_simps)
  have y: "vy (applyQuaternion (Vec3 0 1 0) q) = d * d + b * b - a * a - c * c"
    by (simp add: q applyQuaternion_def Let_def algebra_simps)
  have "0 \<le> a * a" "0 \<le> b * b" "0 \<le> c * c" "0 \<le> d * d" by simp_all
  then show "\<bar>vy (applyQuaternion (Vec3 0 1 0) q)\<bar> \<le> 1"
    using n y by linarith
qed

lemma influence_bounds:
  assumes "\<bar>vy up\<bar> \<le> 1"
  shows "0 \<le> airSpinInfluence t s" "airSpinInfluence t s \<le> 1"
    "0 \<le> airSpinInfluence t s + flipOverInfluence up s"
    "airSpinInfluence t s + flipOverInfluence up s \<le> 3"
proof -
  define a where "a = clamp (t / 2) 0 1"
  define p where "p = clamp s 0 1"
  define p' where "p' = clamp (1 - s) 0 1"
  define u where "u = dot up (Vec3 0 (- 1) 0) / 2 + 0.5"
  have b: "0 \<le> a" "a \<le> 1" "0 \<le> p" "p \<le> 1" "0 \<le> p'" "p' \<le> 1"
    by (simp_all add: a_def p_def p'_def clamp_unit)
  have u: "0 \<le> u" "u \<le> 1"
    using assms by (simp_all add: u_def dot_def)
  have sum: "p + p' = 1"
    by (simp add: p_def p'_def clamp_speed_sum)
  have asi: "airSpinInfluence t s = a * p"
    by (simp add: airSpinInfluence_def a_def p_def)
  have foi: "flipOverInfluence up s = p' * u * 3"
    by (simp add: flipOverInfluence_def Let_def p'_def u_def)
  have 1: "0 \<le> a * p" using b by simp
  have 2: "a * p \<le> p" using b by (simp add: mult_left_le_one_le)
  have 3: "0 \<le> p' * u" using b u by simp
  have 4: "p' * u \<le> p'" using b u by (simp add: mult_right_le_one_le)
  show "0 \<le> airSpinInfluence t s" using 1 asi by simp
  show "airSpinInfluence t s \<le> 1" using 2 b asi by linarith
  show "0 \<le> airSpinInfluence t s + flipOverInfluence up s"
    using 1 3 asi foi by linarith
  show "airSpinInfluence t s + flipOverInfluence up s \<le> 3"
    using 2 4 sum b asi foi by linarith
qed

lemma grounded_more_fields [simp]:
  "airSpinTimer (grounded n c) = airSpinTimer c"
  "canTiltForwards (grounded n c) = canTiltForwards c"
  by (simp_all add: grounded_def)

text \<open>
  Claim C4, as amended. The gate of the spin blocks is one-sided: the increment is added
  while the projection of the angular velocity on the axis is below \<open>maxAirSpinMagnitude\<close>
  (subtracted while it is above the negative of it), and the result is not clamped. For
  a unit body quaternion the increment along the forward axis is at most
  \<open>3 * airSpinAcceleration\<close> and along the right axis at most \<open>airSpinAcceleration\<close>, so after
  a step the magnitude of the projection on the forward axis is at most the larger of
  its magnitude before and \<open>2.0 + 0.45\<close>, and on the right axis at most the larger of its
  magnitude before and \<open>2.0 + 0.15\<close>.
\<close>

theorem spin_projection_after_a_step:
  assumes "Car_table c"
    and "qx (quaternion_Body body) * qx (quaternion_Body body) +
         qy (quaternion_Body body) * qy (quaternion_Body body) +
         qz (quaternion_Body body) * qz (quaternion_Body body) +
         qw (quaternion_Body body) * qw (quaternion_Body body) = 1"
  shows "\<exists>c'. Car_physicsPreStep sa body c = Returns c' \<and>
     \<bar>dot (angularVelocity (collision c')) (applyQuaternion (Vec3 0 0 1) (quaternion_Body body))\<bar>
       \<le> max \<bar>dot (angularVelocity (collision c)) (applyQuaternion (Vec3 0 0 1) (quaternion_Body body))\<bar>
             (maxAirSpinMagnitude + 3 * airSpinAcceleration) \<and>
     \<bar>dot (angularVelocity (collision c')) (applyQuaternion (Vec3 1 0 0) (quaternion_Body body))\<bar>
       \<le> max \<bar>dot (angularVelocity (collision c)) (applyQuaternion (Vec3 1 0 0) (quaternion_Body body))\<bar>
             (maxAirSpinMagnitude + airSpinAcceleration)"
proof -
  define f where "f = applyQuaternion (Vec3 0 0 1) (quaternion_Body body)"
  define r where "r = applyQuaternion (Vec3 1 0 0) (quaternion_Body body)"
  define u where "u = applyQuaternion (Vec3 0 1 0) (quaternion_Body body)"
  define w where "w = angularVelocity (collision c)"
  define s where "s = dot (velocity (collision c)) f"
  define kf where "kf = airSpinAcceleration * (airSpinInfluence (airSpinTimer c) s + flipOverInfluence u s)"
  define kr where "kr = airSpinAcceleration * airSpinInfluence (airSpinTimer c) s"
  have ax: "dot f f = 1" "dot r r = 1" "dot f r = 0" "dot r f = 0" "\<bar>vy u\<bar> \<le> 1"
    using unit_axes [OF assms(2)] by (simp_all add: f_def r_def u_def)
  have ib: "0 \<le> airSpinInfluence (airSpinTimer c) s" "airSpinInfluence (airSpinTimer c) s \<le> 1"
    "0 \<le> airSpinInfluence (airSpinTimer c) s + flipOverInfluence u s"
    "airSpinInfluence (airSpinTimer c) s + flipOverInfluence u s \<le> 3"
    using influence_bounds [OF ax(5), of "airSpinTimer c" s] by simp_all
  have k: "0 \<le> kf" "kf \<le> 3 * airSpinAcceleration" "0 \<le> kr" "kr \<le> airSpinAcceleration"
    using ib by (simp_all add: kf_def kr_def airSpinAcceleration_def)
  obtain c' A B P Q where c': "Car_physicsPreStep sa body c = Returns c'"
    and w': "angularVelocity (collision c') =
        gated_spin A B r (scale r kr) (gated_spin P Q f (scale f kf) w)"
    using Car_physicsPreStep_result [OF assms(1), of sa body]
    unfolding f_def [symmetric] r_def [symmetric] u_def [symmetric]
    by (auto simp: kf_def kr_def w_def s_def)
  let ?w1 = "gated_spin P Q f (scale f kf) w"
  have "dot (angularVelocity (collision c')) f = dot ?w1 f"
    by (simp add: w' gated_spin_other_axis ax)
  moreover have "\<bar>dot ?w1 f\<bar> \<le> max \<bar>dot w f\<bar> (maxAirSpinMagnitude + kf)"
    by (rule gated_spin_same_axis) (rule ax k)+
  ultimately have F: "\<bar>dot (angularVelocity (collision c')) f\<bar>
      \<le> max \<bar>dot w f\<bar> (maxAirSpinMagnitude + 3 * airSpinAcceleration)"
    using k by linarith
  have "\<bar>dot (angularVelocity (collision c')) r\<bar> \<le> max \<bar>dot ?w1 r\<bar> (maxAirSpinMagnitude + kr)"
    unfolding w' by (rule gated_spin_same_axis) (rule ax k)+
  moreover have "dot ?w1 r = dot w r"
    by (simp add: gated_spin_other_axis ax)
  ultimately have R: "\<bar>dot (angularVelocity (collision c')) r\<bar>
      \<le> max \<bar>dot w r\<bar> (maxAirSpinMagnitude + airSpinAcceleration)"
    using k by linarith
  show ?thesis
    using c' F R unfolding f_def r_def w_def by blast
qed

text \<open>The theorem at an airborne car that is upside down, holds the right key and spins
  at 1.9 rad/s about its forward axis.\<close>

theorem spin_projection_after_a_step_witness:
  "Car_table ((pressing ''right'' four_wheel_car)\<lparr>collision := inverted_spinning_body\<rparr>) \<and>
   qx (quaternion_Body inverted_spinning_body) * qx (quaternion_Body inverted_spinning_body) +
   qy (quaternion_Body inverted_spinning_body) * qy (quaternion_Body inverted_spinning_body) +
   qz (quaternion_Body inverted_spinning_body) * qz (quaternion_Body inverted_spinning_body) +
   qw (quaternion_Body inverted_spinning_body) * qw (quaternion_Body inverted_spinning_body) = 1 \<and>
   (\<exists>c'. Car_physicsPreStep getSignedAngleBetweenVectors inverted_spinning_body
           ((pressing ''right'' four_wheel_car)\<lparr>collision := inverted_spinning_body\<rparr>) = Returns c' \<and>
         \<bar>dot (angularVelocity (collision c')) (Vec3 0 0 1)\<bar> \<le> 49 / 20)"
proof -
  let ?c = "(pressing ''right'' four_wheel_car)\<lparr>collision := inverted_spinning_body\<rparr>"
  have t: "Car_table ?c"
    by (simp add: Car_table_right)
  have u: "qx (quaternion_Body inverted_spinning_body) * qx (quaternion_Body inverted_spinning_body) +
   qy (quaternion_Body inverted_spinning_body) * qy (quaternion_Body inverted_spinning_body) +
   qz (quaternion_Body inverted_spinning_body) * qz (quaternion_Body inverted_spinning_body) +
   qw (quaternion_Body inverted_spinning_body) * qw (quaternion_Body inverted_spinning_body) = 1"
    by (simp add: inverted_spinning_body_def)
  have f: "applyQuaternion (Vec3 0 0 1) (quaternion_Body inverted_spinning_body) = Vec3 0 0 1"
    by (simp add: inverted_spinning_body_def applyQuaternion_def)
  have w: "dot (angularVelocity inverted_spinning_body) (Vec3 0 0 1) = 19 / 10"
    by (simp add: inverted_spinning_body_def dot_def)
  obtain c' where c': "Car_physicsPreStep getSignedAngleBetweenVectors inverted_spinning_body ?c =
      Returns c'"
    and b: "\<bar>dot (angularVelocity (collision c')) (Vec3 0 0 1)\<bar> \<le> max (19 / 10) (49 / 20)"
    using spin_projection_after_a_step [OF t u, of getSignedAngleBetweenVectors]
    by (auto simp: f w maxAirSpinMagnitude_def airSpinAcceleration_def)
  have "\<bar>dot (angularVelocity (collision c')) (Vec3 0 0 1)\<bar> \<le> 49 / 20"
    using b by simp
  then show ?thesis
    using t u c' by blast
qed

text \<open>
  Claim C4 as stated fails at that car: it has no wheel on the ground and no forward
  speed, the projection of its angular velocity on the forward axis is 1.9, below the
  cap, so the flip-recovery increment 0.15 * 3 is added, and the projection after the
  step is 2.35, above \<open>maxAirSpinMagnitude = 2.0\<close>.
\<close>

theorem spin_exceeds_cap_counterexample:
  "numWheelsOnGround (rayCastVehicle
      ((pressing ''right'' four_wheel_car)\<lparr>collision := inverted_spinning_body\<rparr>)) = 0 \<and>
   dot (angularVelocity (collision
      ((pressing ''right'' four_wheel_car)\<lparr>collision := inverted_spinning_body\<rparr>)))
     (applyQuaternion (Vec3 0 0 1) (quaternion_Body inverted_spinning_body)) = 19 / 10 \<and>
   dot (angularVelocity (collision (state_of
      (Car_physicsPreStep getSignedAngleBetweenVectors inverted_spinning_body
        ((pressing ''right'' four_wheel_car)\<lparr>collision := inverted_spinning_body\<rparr>)))))
     (applyQuaternion (Vec3 0 0 1) (quaternion_Body inverted_spinning_body)) = 47 / 20 \<and>
   maxAirSpinMagnitude < \<bar>47 / 20\<bar>"
proof -
  let ?c = "(pressing ''right'' four_wheel_car)\<lparr>collision := inverted_spinning_body\<rparr>"
  have t: "Car_table ?c"
    by (simp add: Car_table_right)
  obtain c' where c': "Car_physicsPreStep getSignedAngleBetweenVectors inverted_spinning_body ?c = Returns c'"
    and w': "angularVelocity (collision c') =
       gated_spin (canTiltForwards ?c \<and> held ''throttle'' ?c \<and> \<not> held ''reverse'' ?c)
         (held ''reverse'' ?c \<and> \<not> held ''throttle'' ?c)
         (applyQuaternion (Vec3 1 0 0) (quaternion_Body inverted_spinning_body))
         (scale (applyQuaternion (Vec3 1 0 0) (quaternion_Body inverted_spinning_body))
            (airSpinAcceleration * airSpinInfluence (airSpinTimer ?c)
               (dot (velocity (collision ?c)) (applyQuaternion (Vec3 0 0 1) (quaternion_Body inverted_spinning_body)))))
         (gated_spin (held ''right'' ?c \<and> \<not> held ''left'' ?c) (held ''left'' ?c \<and> \<not> held ''right'' ?c)
            (applyQuaternion (Vec3 0 0 1) (quaternion_Body inverted_spinning_body))
            (scale (applyQuaternion (Vec3 0 0 1) (quaternion_Body inverted_spinning_body))
               (airSpinAcceleration *
                 (airSpinInfluence (airSpinTimer ?c)
                    (dot (velocity (collision ?c)) (applyQuaternion (Vec3 0 0 1) (quaternion_Body inverted_spinning_body))) +
                  flipOverInfluence (applyQuaternion (Vec3 0 1 0) (quaternion_Body inverted_spinning_body))
                    (dot (velocity (collision ?c)) (applyQuaternion (Vec3 0 0 1) (quaternion_Body inverted_spinning_body))))))
            (angularVelocity (collision ?c)))"
    using Car_physicsPreStep_angularVelocity [OF t, of getSignedAngleBetweenVectors inverted_spinning_body]
    by blast
  have "angularVelocity (collision c') = Vec3 0 0 (47 / 20)"
    unfolding w' by (simp add: evaluate_spin)
  then show ?thesis
    by (simp add: c' evaluate_spin four_wheel_car_fields)
qed

subsection \<open>Stabilization with wheels on the ground\<close>




subsection \<open>The steering target\<close>

lemma speedFactor_ge_1: "1 \<le> clamp x 1 MAX_VALUE"
  by (simp add: clamp_def)

lemma right_target_bounds:
  assumes "1 \<le> sf"
  shows "- maxSteerVal \<le> clamp (min (- maxSteerVal / sf) d) (- maxSteerVal) maxSteerVal"
    and "clamp (min (- maxSteerVal / sf) d) (- maxSteerVal) maxSteerVal \<le> - maxSteerVal / sf"
proof -
  have "maxSteerVal / sf \<le> maxSteerVal" "0 \<le> maxSteerVal / sf"
    using assms by (simp_all add: maxSteerVal_def field_simps)
  then show "- maxSteerVal \<le> clamp (min (- maxSteerVal / sf) d) (- maxSteerVal) maxSteerVal"
    and "clamp (min (- maxSteerVal / sf) d) (- maxSteerVal) maxSteerVal \<le> - maxSteerVal / sf"
    by (simp_all add: clamp_def maxSteerVal_def) 
qed

lemma left_target_bounds:
  assumes "1 \<le> sf"
  shows "maxSteerVal / sf \<le> clamp (max (maxSteerVal / sf) d) (- maxSteerVal) maxSteerVal"
    and "clamp (max (maxSteerVal / sf) d) (- maxSteerVal) maxSteerVal \<le> maxSteerVal"
proof -
  have "maxSteerVal / sf \<le> maxSteerVal" "0 \<le> maxSteerVal / sf"
    using assms by (simp_all add: maxSteerVal_def field_simps)
  then show "maxSteerVal / sf \<le> clamp (max (maxSteerVal / sf) d) (- maxSteerVal) maxSteerVal"
    and "clamp (max (maxSteerVal / sf) d) (- maxSteerVal) maxSteerVal \<le> maxSteerVal"
    by (simp_all add: clamp_def maxSteerVal_def) 
qed

lemma Car_physicsPreStep_target:
  assumes "Car_table c"
  shows "\<exists>c'. Car_physicsPreStep sa body c = Returns c' \<and>
     target (steeringSimulator c') =
       (if held ''right'' c
        then clamp (min (- maxSteerVal /
                          clamp (dot (velocity (collision c))
                                   (applyQuaternion (Vec3 0 0 1) (quaternion_Body body)) * 0.3)
                            1 MAX_VALUE)
                        (- sa (normalize (velocity (collision c)))
                             (applyQuaternion (Vec3 0 0 1) (quaternion_Body body))))
               (- maxSteerVal) maxSteerVal
        else if held ''left'' c
        then clamp (max (maxSteerVal /
                          clamp (dot (velocity (collision c))
                                   (applyQuaternion (Vec3 0 0 1) (quaternion_Body body)) * 0.3)
                            1 MAX_VALUE)
                        (- sa (normalize (velocity (collision c)))
                             (applyQuaternion (Vec3 0 0 1) (quaternion_Body body))))
               (- maxSteerVal) maxSteerVal
        else 0)"
proof -
  obtain c' where c': "Car_physicsPreStep sa body c = Returns c'"
    and s': "speed c' = dot (velocity (collision c)) (applyQuaternion (Vec3 0 0 1) (quaternion_Body body))"
    and g': "target (steeringSimulator c') =
       (if held ''right'' c
        then clamp (min (- maxSteerVal / clamp (speed c' * 0.3) 1 MAX_VALUE)
                        (- sa (normalize (velocity (collision c)))
                             (applyQuaternion (Vec3 0 0 1) (quaternion_Body body))))
               (- maxSteerVal) maxSteerVal
        else if held ''left'' c
        then clamp (max (maxSteerVal / clamp (speed c' * 0.3) 1 MAX_VALUE)
                        (- sa (normalize (velocity (collision c)))
                             (applyQuaternion (Vec3 0 0 1) (quaternion_Body body))))
               (- maxSteerVal) maxSteerVal
        else 0)"
    using Car_physicsPreStep_result [OF assms, of sa body] by blast
  show ?thesis
    using c' g' unfolding s' by blast
qed

text \<open>
  Claim C3, as amended. With the right key held the steering target is
  \<open>Math.min(- maxSteer / speedFactor, - driftCorrection)\<close>, the candidate further to the
  right, clamped to \<open>[- maxSteer, maxSteer]\<close>, so it lies between \<open>- maxSteer\<close> and
  \<open>- maxSteer / speedFactor\<close>; otherwise, with the left key held, it is
  \<open>Math.max(maxSteer / speedFactor, - driftCorrection)\<close>, the candidate further to the left,
  clamped, so it lies between \<open>maxSteer / speedFactor\<close> and \<open>maxSteer\<close>; with neither held it
  is 0. Here \<open>speedFactor = clamp(speed * 0.3, 1, Number.MAX_VALUE)\<close> and \<open>maxSteer = 0.8\<close>.
\<close>

theorem steering_target_is_the_candidate_further_toward_the_pressed_side:
  assumes "Car_table c"
  shows "\<exists>c'. Car_physicsPreStep sa body c = Returns c' \<and>
     (let forward = applyQuaternion (Vec3 0 0 1) (quaternion_Body body);
          speedFactor = clamp (dot (velocity (collision c)) forward * 0.3) 1 MAX_VALUE;
          driftCorrection = sa (normalize (velocity (collision c))) forward
      in (held ''right'' c \<longrightarrow>
            target (steeringSimulator c') =
              clamp (min (- maxSteerVal / speedFactor) (- driftCorrection)) (- maxSteerVal) maxSteerVal \<and>
            - maxSteerVal \<le> target (steeringSimulator c') \<and>
            target (steeringSimulator c') \<le> - maxSteerVal / speedFactor) \<and>
         (\<not> held ''right'' c \<and> held ''left'' c \<longrightarrow>
            target (steeringSimulator c') =
              clamp (max (maxSteerVal / speedFactor) (- driftCorrection)) (- maxSteerVal) maxSteerVal \<and>
            maxSteerVal / speedFactor \<le> target (steeringSimulator c') \<and>
            target (steeringSimulator c') \<le> maxSteerVal) \<and>
         (\<not> held ''right'' c \<and> \<not> held ''left'' c \<longrightarrow> target (steeringSimulator c') = 0))"
proof -
  define forward where "forward = applyQuaternion (Vec3 0 0 1) (quaternion_Body body)"
  define speedFactor where "speedFactor = clamp (dot (velocity (collision c)) forward * 0.3) 1 MAX_VALUE"
  define driftCorrection where "driftCorrection = sa (normalize (velocity (collision c))) forward"
  obtain c' where c': "Car_physicsPreStep sa body c = Returns c'"
    and g': "target (steeringSimulator c') =
       (if held ''right'' c
        then clamp (min (- maxSteerVal / speedFactor) (- driftCorrection)) (- maxSteerVal) maxSteerVal
        else if held ''left'' c
        then clamp (max (maxSteerVal / speedFactor) (- driftCorrection)) (- maxSteerVal) maxSteerVal
        else 0)"
    using Car_physicsPreStep_target [OF assms, of sa body]
    unfolding forward_def [symmetric] speedFactor_def [symmetric] driftCorrection_def [symmetric]
    by blast
  have sf: "1 \<le> speedFactor"
    by (simp add: speedFactor_def speedFactor_ge_1)
  have "(held ''right'' c \<longrightarrow>
            target (steeringSimulator c') =
              clamp (min (- maxSteerVal / speedFactor) (- driftCorrection)) (- maxSteerVal) maxSteerVal \<and>
            - maxSteerVal \<le> target (steeringSimulator c') \<and>
            target (steeringSimulator c') \<le> - maxSteerVal / speedFactor) \<and>
         (\<not> held ''right'' c \<and> held ''left'' c \<longrightarrow>
            target (steeringSimulator c') =
              clamp (max (maxSteerVal / speedFactor) (- driftCorrection)) (- maxSteerVal) maxSteerVal \<and>
            maxSteerVal / speedFactor \<le> target (steeringSimulator c') \<and>
            target (steeringSimulator c') \<le> maxSteerVal) \<and>
         (\<not> held ''right'' c \<and> \<not> held ''left'' c \<longrightarrow> target (steeringSimulator c') = 0)"
    using right_target_bounds [OF sf, of "- driftCorrection"]
      left_target_bounds [OF sf, of "- driftCorrection"]
    by (simp add: g')
  then show ?thesis
    using c' unfolding Let_def forward_def [symmetric] speedFactor_def [symmetric]
      driftCorrection_def [symmetric]
    by blast
qed

lemma rolling_fields:
  "velocity rolling_body = Vec3 0 0 1"
  "applyQuaternion (Vec3 0 0 1) (quaternion_Body rolling_body) = Vec3 0 0 1"
  "normalize (Vec3 0 0 1) = Vec3 0 0 1"
  "getSignedAngleBetweenVectors (Vec3 0 0 1) (Vec3 0 0 1) = 0"
  "clamp (3 / 10) 1 MAX_VALUE = 1"
  by (simp_all add: rolling_body_def new_Body_def applyQuaternion_def normalize_def
      getSignedAngleBetweenVectors_def dot_def crossVectors_def clamp_def)

text \<open>The theorem at a car that moves straight ahead at speed 1 and holds the right key.\<close>

theorem steering_target_witness:
  "Car_table ((pressing ''right'' four_wheel_car)\<lparr>collision := rolling_body\<rparr>) \<and>
   held ''right'' ((pressing ''right'' four_wheel_car)\<lparr>collision := rolling_body\<rparr>) \<and>
   (\<exists>c'. Car_physicsPreStep getSignedAngleBetweenVectors rolling_body
           ((pressing ''right'' four_wheel_car)\<lparr>collision := rolling_body\<rparr>) = Returns c' \<and>
         - maxSteerVal \<le> target (steeringSimulator c') \<and>
         target (steeringSimulator c') \<le> - maxSteerVal / 1)"
proof -
  let ?c = "(pressing ''right'' four_wheel_car)\<lparr>collision := rolling_body\<rparr>"
  have t: "Car_table ?c"
    by (simp add: Car_table_right)
  have h: "held ''right'' ?c"
    by (simp add: held_pressing_four_wheel_car)
  have d: "dot (Vec3 0 0 1) (Vec3 0 0 1) = 1"
    by (simp add: dot_def)
  show ?thesis
    using t h
      steering_target_is_the_candidate_further_toward_the_pressed_side
        [OF t, of getSignedAngleBetweenVectors rolling_body]
    by (auto simp: Let_def rolling_fields d)
qed


text \<open>
  Claim C3 as stated fails at that car: the drift angle is 0 and the speed factor 1, so
  of the two candidates \<open>- 0.8\<close> and \<open>0\<close> the one of smaller magnitude is \<open>0\<close>, which is what
  the claim gives; the code sets the target to \<open>- 0.8\<close>.
\<close>

theorem steering_target_counterexample:
  "target (steeringSimulator (state_of
      (Car_physicsPreStep getSignedAngleBetweenVectors rolling_body
        ((pressing ''right'' four_wheel_car)\<lparr>collision := rolling_body\<rparr>)))) = - (4 / 5) \<and>
   spec_steering_target (- 1)
     (dot (velocity rolling_body) (applyQuaternion (Vec3 0 0 1) (quaternion_Body rolling_body)))
     (getSignedAngleBetweenVectors (normalize (velocity rolling_body))
        (applyQuaternion (Vec3 0 0 1) (quaternion_Body rolling_body))) = 0"
proof -
  let ?c = "(pressing ''right'' four_wheel_car)\<lparr>collision := rolling_body\<rparr>"
  have t: "Car_table ?c"
    by (simp add: Car_table_right)
  obtain c' where c': "Car_physicsPreStep getSignedAngleBetweenVectors rolling_body ?c = Returns c'"
    and g': "target (steeringSimulator c') =
       (if held ''right'' ?c
        then clamp (min (- maxSteerVal /
                          clamp (dot (velocity (collision ?c))
                                   (applyQuaternion (Vec3 0 0 1) (quaternion_Body rolling_body)) * 0.3)
                            1 MAX_VALUE)
                        (- getSignedAngleBetweenVectors (normalize (velocity (collision ?c)))
                             (applyQuaternion (Vec3 0 0 1) (quaternion_Body rolling_body))))
               (- maxSteerVal) maxSteerVal
        else if held ''left'' ?c
        then clamp (max (maxSteerVal /
                          clamp (dot (velocity (collision ?c))
                                   (applyQuaternion (Vec3 0 0 1) (quaternion_Body rolling_body)) * 0.3)
                            1 MAX_VALUE)
                        (- getSignedAngleBetweenVectors (normalize (velocity (collision ?c)))
                             (applyQuaternion (Vec3 0 0 1) (quaternion_Body rolling_body))))
               (- maxSteerVal) maxSteerVal
        else 0)"
    using Car_physicsPreStep_target [OF t, of getSignedAngleBetweenVectors rolling_body] by blast
  have d: "dot (Vec3 0 0 1) (Vec3 0 0 1) = 1"
    by (simp add: dot_def)
  have 1: "target (steeringSimulator c') = - (4 / 5)"
    unfolding g'
    by (simp add: held_pressing_four_wheel_car rolling_fields d)
       (simp add: clamp_def maxSteerVal_def)
  have 2: "spec_steering_target (- 1)
     (dot (velocity rolling_body) (applyQuaternion (Vec3 0 0 1) (quaternion_Body rolling_body)))
     (getSignedAngleBetweenVectors (normalize (velocity rolling_body))
        (applyQuaternion (Vec3 0 0 1) (quaternion_Body rolling_body))) = 0"
    by (simp add: spec_steering_target_def rolling_fields d Let_def)
       (simp add: clamp_def maxSteerVal_def)
  show ?thesis
    using 1 2 by (simp add: c')
qed

subsection \<open>\<open>setPosition\<close>\<close>

text \<open>
  Claim C10, as amended. \<open>setPosition(x, y, z)\<close> writes the physics body: its position,
  previous position, interpolated position and initial position are exactly \<open>(x, y, z)\<close>
  at once. The transform of the vehicle itself (the \<open>position\<close> and \<open>quaternion\<close> of the
  object, which the scene reads and which is also the \<open>position\<close> of \<open>IControllable\<close>) is
  not written by \<open>setPosition\<close>: it is what it was before the call.
\<close>

theorem setPosition_writes_body_not_transform:
  "position_Body (collision (Vehicle_setPosition x y z v)) = Vec3 x y z \<and>
   previousPosition (collision (Vehicle_setPosition x y z v)) = Vec3 x y z \<and>
   interpolatedPosition (collision (Vehicle_setPosition x y z v)) = Vec3 x y z \<and>
   initPosition (collision (Vehicle_setPosition x y z v)) = Vec3 x y z \<and>
   position (Vehicle_setPosition x y z v) = position v \<and>
   quaternion (Vehicle_setPosition x y z v) = quaternion v"
  by (simp add: Vehicle_setPosition_def)

text \<open>
  Claim C10 as stated fails: on a freshly constructed car, whose transform is at the
  origin, \<open>setPosition(1, 2, 3)\<close> followed at once by a read of the vehicle's transform
  gives the origin, not \<open>(1, 2, 3)\<close>.
\<close>

theorem setPosition_transform_read_counterexample:
  "position (Vehicle_setPosition 1 2 3 (new_Car [] None)) = Vec3 0 0 0 \<and>
   Vec3 0 0 0 \<noteq> Vec3 1 2 3"
  by (simp add: Vehicle_setPosition_def new_Car_def)

end
